theory Spec2Isabelle
  imports Complex_Main
begin

section \<open>Popup: the position resolver\<close>

text \<open>
  The component \<open>Popup\<close> computes where the floating overlay goes in the
  function \<open>calculatePosition\<close>. JavaScript numbers are modelled as reals: the
  function only adds, subtracts, halves, scales by a constant and compares.
\<close>

subsection \<open>Data\<close>

text \<open>
  A \<open>DOMRect\<close> as \<open>getBoundingClientRect\<close> returns it: \<open>right\<close> and
  \<open>bottom\<close> are not stored, they are \<open>left + width\<close> and \<open>top + height\<close>.
\<close>

record domRect =
  left :: real
  top :: real
  width :: real
  height :: real

definition right :: "domRect \<Rightarrow> real" where
  "right r = left r + width r"

definition bottom :: "domRect \<Rightarrow> real" where
  "bottom r = top r + height r"

text \<open>
  \<open>target?: HTMLElement | { x: number; y: number }\<close>. The code tells the two apart by
  \<open>'x' in props.target\<close>, so an element is seen through its bounding rectangle and
  through its own properties \<open>x\<close> and \<open>y\<close> when it has a property \<open>x\<close> (an image
  element has both; most elements have neither).
\<close>

datatype target = Element domRect "(real \<times> real) option" | Point real real

text \<open>The placement labels: the six of \<open>PopupPositionProps.placement\<close> and
  \<open>'custom'\<close>, which only a result carries.\<close>

datatype placement = Top | Bottom | Left | Right | Center | Auto | Custom

datatype variant = Default | Tooltip | Modal | Dropdown | CustomVariant

text \<open>The properties \<open>calculatePosition\<close> can see; \<open>None\<close> is an absent
  (undefined) property.\<close>

record popupProps =
  target :: "target option"
  placement :: "placement option"
  offset :: "(real \<times> real) option"
  autoAdjust :: "bool option"
  flip :: "bool option"
  variant :: "variant option"

record window =
  innerWidth :: real
  innerHeight :: real

record responsiveSize =
  rsWidth :: real
  rsHeight :: real
  rsMargin :: real

record position =
  x :: real
  y :: real
  placementLabel :: placement
  adjusted :: bool

subsection \<open>Operations\<close>

definition getResponsiveSize :: "window \<Rightarrow> responsiveSize" where
  "getResponsiveSize w =
     (let screenWidth = innerWidth w;
          screenHeight = innerHeight w;
          isMobile = (screenWidth \<le> 768);
          isTablet = (screenWidth \<le> 1024)
      in if isMobile then
           \<lparr>rsWidth = min (screenWidth - 32) 320,
            rsHeight = min (screenHeight - 32) 240,
            rsMargin = 16\<rparr>
         else if isTablet then
           \<lparr>rsWidth = min (screenWidth * 0.8) 400,
            rsHeight = min (screenHeight * 0.6) 300,
            rsMargin = 20\<rparr>
         else
           \<lparr>rsWidth = 400, rsHeight = 200, rsMargin = 10\<rparr>)"

text \<open>The \<open>switch (placement)\<close>: the coordinates before any boundary check.
  \<open>'auto'\<close> has no case of its own and takes the \<open>default\<close> branch.\<close>

fun initialPosition ::
  "window \<Rightarrow> domRect \<Rightarrow> real \<Rightarrow> real \<Rightarrow> real \<times> real \<Rightarrow> placement \<Rightarrow> real \<times> real" where
  "initialPosition w targetRect popupWidth popupHeight off Top =
     (left targetRect + width targetRect / 2 - popupWidth / 2 + fst off,
      top targetRect - popupHeight + snd off)"
| "initialPosition w targetRect popupWidth popupHeight off Bottom =
     (left targetRect + width targetRect / 2 - popupWidth / 2 + fst off,
      bottom targetRect + snd off)"
| "initialPosition w targetRect popupWidth popupHeight off Left =
     (left targetRect - popupWidth + fst off,
      top targetRect + height targetRect / 2 - popupHeight / 2 + snd off)"
| "initialPosition w targetRect popupWidth popupHeight off Right =
     (right targetRect + fst off,
      top targetRect + height targetRect / 2 - popupHeight / 2 + snd off)"
| "initialPosition w targetRect popupWidth popupHeight off Center =
     (innerWidth w / 2 - popupWidth / 2 + fst off,
      innerHeight w / 2 - popupHeight / 2 + snd off)"
| "initialPosition w targetRect popupWidth popupHeight off _ =
     (left targetRect + width targetRect / 2 - popupWidth / 2 + fst off,
      bottom targetRect + snd off)"

text \<open>One axis of the boundary check: the coordinate and whether it was moved. The
  comparisons are exact here; the code compares doubles, so on inputs whose sums are not
  representable (207.1 + 2 - 200 + 0.9 against 10) the code can clamp where this does
  not.\<close>

definition clampAxis :: "real \<Rightarrow> real \<Rightarrow> real \<Rightarrow> real \<Rightarrow> real \<times> bool" where
  "clampAxis v popupSize inner margin =
     (if v < margin then (margin, True)
      else if v + popupSize > inner - margin then (inner - popupSize - margin, True)
      else (v, False))"

text \<open>\<open>props.placement || 'bottom'\<close> and \<open>props.offset || [0, 0]\<close>.\<close>

definition placementOrDefault :: "popupProps \<Rightarrow> placement" where
  "placementOrDefault props = (case placement props of None \<Rightarrow> Bottom | Some p \<Rightarrow> p)"

definition offsetOrDefault :: "popupProps \<Rightarrow> real \<times> real" where
  "offsetOrDefault props = (case offset props of None \<Rightarrow> (0, 0) | Some v \<Rightarrow> v)"

text \<open>The guard of the flip block:
  \<open>(props.variant === 'tooltip' || props.variant === 'dropdown') && props.flip\<close>.\<close>

definition flipEnabled :: "popupProps \<Rightarrow> bool" where
  "flipEnabled props \<longleftrightarrow>
     (variant props = Some Tooltip \<or> variant props = Some Dropdown) \<and> flip props = Some True"

definition calculatePosition :: "window \<Rightarrow> popupProps \<Rightarrow> position" where
  "calculatePosition w props =
     (case target props of
        None \<Rightarrow>
          (let sz = getResponsiveSize w
           in \<lparr>x = innerWidth w / 2 - rsWidth sz / 2,
               y = innerHeight w / 2 - rsHeight sz / 2,
               placementLabel = Center,
               adjusted = False\<rparr>)
      | Some (Point px py) \<Rightarrow>
          \<lparr>x = px, y = py, placementLabel = Custom, adjusted = False\<rparr>
      | Some (Element targetRect (Some (px, py))) \<Rightarrow>
          \<lparr>x = px, y = py, placementLabel = Custom, adjusted = False\<rparr>
      | Some (Element targetRect None) \<Rightarrow>
          (let plc = placementOrDefault props;
               off = offsetOrDefault props;
               sz = getResponsiveSize w;
               popupWidth = rsWidth sz;
               popupHeight = rsHeight sz;
               margin = rsMargin sz;
               (originalX, originalY) = initialPosition w targetRect popupWidth popupHeight off plc;
               (x1, adjX) = clampAxis originalX popupWidth (innerWidth w) margin;
               (y1, adjY) = clampAxis originalY popupHeight (innerHeight w) margin;
               adj1 = (adjX \<or> adjY)
           in if flipEnabled props then
                if plc = Top \<and> originalY < margin then
                  \<lparr>x = x1, y = bottom targetRect + snd off, placementLabel = plc, adjusted = True\<rparr>
                else if plc = Bottom \<and> originalY + popupHeight > innerHeight w - margin then
                  \<lparr>x = x1, y = top targetRect - popupHeight + snd off, placementLabel = plc,
                   adjusted = True\<rparr>
                else if plc = Left \<and> originalX < margin then
                  \<lparr>x = right targetRect + fst off, y = y1, placementLabel = plc, adjusted = True\<rparr>
                else if plc = Right \<and> originalX + popupWidth > innerWidth w - margin then
                  \<lparr>x = left targetRect - popupWidth + fst off, y = y1, placementLabel = plc,
                   adjusted = True\<rparr>
                else \<lparr>x = x1, y = y1, placementLabel = plc, adjusted = adj1\<rparr>
              else \<lparr>x = x1, y = y1, placementLabel = plc, adjusted = adj1\<rparr>))"





text \<open>
  The available space of the specification's \<open>auto\<close> rule, in the specification's
  words: the distance from the anchor's edge to the viewport's edge in each of the four
  directions. \<open>calculatePosition\<close> does not use it.
\<close>

fun spec_availableSpace :: "window \<Rightarrow> domRect \<Rightarrow> placement \<Rightarrow> real" where
  "spec_availableSpace w r Top = top r"
| "spec_availableSpace w r Bottom = innerHeight w - bottom r"
| "spec_availableSpace w r Left = left r"
| "spec_availableSpace w r Right = innerWidth w - right r"
| "spec_availableSpace w r _ = 0"

section \<open>LinkPreviewer: the URL caches and the timers\<close>

text \<open>
  The component keeps four timer handles and six signals; the two URL caches
  \<open>loadedUrls\<close> and \<open>failedUrls\<close> are module-level sets, so they are part of the
  state every handler sees. \<open>window.setTimeout\<close> and \<open>clearTimeout\<close> act on the
  window's table of pending timers, which is part of the state too: a handle that is
  overwritten leaves its timer pending. The signal \<open>targetElement\<close>, which only
  tells the popup its anchor, and the click handlers, which open the link in a new window,
  are left out.
\<close>

subsection \<open>Data\<close>

text \<open>The callbacks the component passes to \<open>window.setTimeout\<close>.\<close>

datatype timerCallback =
    ShowPreviewCallback     \<comment> \<open>\<open>handleMouseEnter\<close>: \<open>showPreview()\<close>\<close>
  | HidePreviewerCallback   \<comment> \<open>\<open>handleMouseLeave\<close>, \<open>handlePopupMouseLeave\<close>: \<open>setShowPreviewer(false)\<close>\<close>
  | SetSrcCallback          \<comment> \<open>\<open>loadPreviewContent\<close>, outer timer\<close>
  | LoadTimeoutCallback     \<comment> \<open>\<open>loadPreviewContent\<close>, inner timer\<close>

record pendingTimer =
  timerId :: nat
  timerDelay :: nat
  timerCallback :: timerCallback

text \<open>The texts \<open>setErrorMessage\<close> is called with (the source's are in Chinese).\<close>

datatype errorMessage =
    NoMessage             \<comment> \<open>the empty string\<close>
  | InvalidUrlMessage     \<comment> \<open>"invalid URL address"\<close>
  | FailedBeforeMessage   \<comment> \<open>"loading failed before, ..."\<close>
  | TimeoutMessage        \<comment> \<open>"loading timed out, retry later"\<close>
  | CannotLoadMessage     \<comment> \<open>"cannot load the preview content, ..."\<close>

record previewer =
  url :: string                     \<comment> \<open>\<open>props.url\<close>\<close>
  showPreviewer :: bool
  isLoading :: bool
  hasError :: bool
  errorMessage :: errorMessage
  iframeSrc :: string
  debounceTimer :: "nat option"
  hideTimer :: "nat option"
  loadTimer :: "nat option"
  setSrcTimer :: "nat option"
  loadedUrls :: "string set"
  failedUrls :: "string set"
  pendingTimers :: "pendingTimer list"  \<comment> \<open>the window's pending timers\<close>
  nextTimerId :: nat                    \<comment> \<open>the handle the next \<open>setTimeout\<close> returns\<close>

text \<open>
  What a handler reads from the browser: \<open>window.innerWidth\<close> and the constructor
  \<open>new URL(url)\<close>, which returns the parsed URL or throws (\<open>None\<close>). The URL parser is
  the browser's, so it is a parameter of the model.
\<close>

record browser =
  browserInnerWidth :: real
  newURL :: "string \<Rightarrow> string option"

definition DEBOUNCE_DELAY :: nat where "DEBOUNCE_DELAY = 200"
definition HIDE_DELAY :: nat where "HIDE_DELAY = 150"
definition LOAD_TIMEOUT :: nat where "LOAD_TIMEOUT = 8000"

text \<open>The component as it is created: the initial values of its signals and handles,
  over the caches as they are.\<close>

definition LinkPreviewer :: "string \<Rightarrow> string set \<Rightarrow> string set \<Rightarrow> previewer" where
  "LinkPreviewer u loaded failed =
     \<lparr>url = u, showPreviewer = False, isLoading = False, hasError = False,
      errorMessage = NoMessage, iframeSrc = [],
      debounceTimer = None, hideTimer = None, loadTimer = None, setSrcTimer = None,
      loadedUrls = loaded, failedUrls = failed, pendingTimers = [], nextTimerId = 0\<rparr>"

subsection \<open>Timers\<close>

definition setTimeout :: "timerCallback \<Rightarrow> nat \<Rightarrow> previewer \<Rightarrow> nat \<times> previewer" where
  "setTimeout cb d st =
     (nextTimerId st,
      st\<lparr>pendingTimers :=
            pendingTimers st @ [\<lparr>timerId = nextTimerId st, timerDelay = d, timerCallback = cb\<rparr>],
          nextTimerId := Suc (nextTimerId st)\<rparr>)"

text \<open>\<open>clearTimeout\<close> of an undefined handle, or of a timer that has fired or was
  cleared, does nothing.\<close>

definition clearTimeout :: "nat option \<Rightarrow> previewer \<Rightarrow> previewer" where
  "clearTimeout h st =
     (case h of
        None \<Rightarrow> st
      | Some i \<Rightarrow> st\<lparr>pendingTimers := filter (\<lambda>t. timerId t \<noteq> i) (pendingTimers st)\<rparr>)"

subsection \<open>Handlers\<close>

definition isMobileDevice :: "browser \<Rightarrow> bool" where
  "isMobileDevice b \<longleftrightarrow> browserInnerWidth b \<le> 768"

text \<open>\<open>try { new URL(url); return true } catch { return false }\<close>.\<close>

definition isValidUrl :: "browser \<Rightarrow> string \<Rightarrow> bool" where
  "isValidUrl b u = (case newURL b u of Some parsed \<Rightarrow> True | None \<Rightarrow> False)"

definition loadPreviewContent :: "previewer \<Rightarrow> previewer" where
  "loadPreviewContent st =
     (let (h, st1) = setTimeout SetSrcCallback 100 st
      in st1\<lparr>setSrcTimer := Some h\<rparr>)"

definition loadPreview :: "previewer \<Rightarrow> previewer" where
  "loadPreview st =
     (if iframeSrc st = url st \<and> \<not> hasError st then st
      else
        let st1 = st\<lparr>isLoading := True, hasError := False, errorMessage := NoMessage\<rparr>
        in if url st1 \<in> loadedUrls st1 then
             st1\<lparr>isLoading := False, hasError := False, iframeSrc := url st1\<rparr>
           else if url st1 \<in> failedUrls st1 then
             st1\<lparr>isLoading := False, hasError := True, errorMessage := FailedBeforeMessage\<rparr>
           else loadPreviewContent st1)"

definition showPreview :: "browser \<Rightarrow> previewer \<Rightarrow> previewer" where
  "showPreview b st =
     (if \<not> isValidUrl b (url st) then
        st\<lparr>hasError := True, errorMessage := InvalidUrlMessage, showPreviewer := True\<rparr>
      else if isMobileDevice b then st
      else loadPreview ((clearTimeout (hideTimer st) st)\<lparr>showPreviewer := True\<rparr>))"

text \<open>The two timer callbacks of \<open>loadPreviewContent\<close>.\<close>

definition setSrcFires :: "previewer \<Rightarrow> previewer" where
  "setSrcFires st =
     (let st1 = st\<lparr>iframeSrc := url st\<rparr>;
          (h, st2) = setTimeout LoadTimeoutCallback LOAD_TIMEOUT st1
      in st2\<lparr>loadTimer := Some h\<rparr>)"

definition loadTimeoutFires :: "previewer \<Rightarrow> previewer" where
  "loadTimeoutFires st =
     st\<lparr>isLoading := False, hasError := True, errorMessage := TimeoutMessage,
        failedUrls := insert (url st) (failedUrls st)\<rparr>"

definition handleIframeLoad :: "previewer \<Rightarrow> previewer" where
  "handleIframeLoad st =
     (let st1 = clearTimeout (loadTimer st) st
      in st1\<lparr>isLoading := False, hasError := False,
             loadedUrls := insert (url st1) (loadedUrls st1)\<rparr>)"

definition handleIframeError :: "previewer \<Rightarrow> previewer" where
  "handleIframeError st =
     (let st1 = clearTimeout (loadTimer st) st
      in st1\<lparr>isLoading := False, hasError := True, errorMessage := CannotLoadMessage,
             failedUrls := insert (url st1) (failedUrls st1)\<rparr>)"

definition handleMouseEnter :: "previewer \<Rightarrow> previewer" where
  "handleMouseEnter st =
     (let st1 = clearTimeout (debounceTimer st) st;
          st2 = clearTimeout (hideTimer st1) st1;
          (h, st3) = setTimeout ShowPreviewCallback DEBOUNCE_DELAY st2
      in st3\<lparr>debounceTimer := Some h\<rparr>)"

definition handleMouseLeave :: "previewer \<Rightarrow> previewer" where
  "handleMouseLeave st =
     (let st1 = clearTimeout (debounceTimer st) st;
          st2 = clearTimeout (loadTimer st1) st1;
          st3 = clearTimeout (setSrcTimer st2) st2;
          (h, st4) = setTimeout HidePreviewerCallback HIDE_DELAY st3
      in st4\<lparr>hideTimer := Some h\<rparr>)"

definition handlePopupMouseEnter :: "previewer \<Rightarrow> previewer" where
  "handlePopupMouseEnter st =
     (let st1 = clearTimeout (hideTimer st) st;
          st2 = clearTimeout (debounceTimer st1) st1
      in st2\<lparr>showPreviewer := True\<rparr>)"

definition handlePopupMouseLeave :: "previewer \<Rightarrow> previewer" where
  "handlePopupMouseLeave st =
     (let st1 = clearTimeout (hideTimer st) st;
          (h, st2) = setTimeout HidePreviewerCallback HIDE_DELAY st1
      in st2\<lparr>hideTimer := Some h\<rparr>)"

subsection \<open>Events\<close>

text \<open>
  What can happen to a mounted component: the pointer enters or leaves the link or the
  popup, the iframe reports \<open>load\<close> or \<open>error\<close>, a pending timer fires. A timer that
  is not pending cannot fire.
\<close>

datatype event =
    MouseEnter | MouseLeave | PopupMouseEnter | PopupMouseLeave
  | IframeLoad | IframeError | TimerFires nat

definition runCallback :: "browser \<Rightarrow> timerCallback \<Rightarrow> previewer \<Rightarrow> previewer" where
  "runCallback b cb st =
     (case cb of
        ShowPreviewCallback \<Rightarrow> showPreview b st
      | HidePreviewerCallback \<Rightarrow> st\<lparr>showPreviewer := False\<rparr>
      | SetSrcCallback \<Rightarrow> setSrcFires st
      | LoadTimeoutCallback \<Rightarrow> loadTimeoutFires st)"

definition timerFires :: "browser \<Rightarrow> nat \<Rightarrow> previewer \<Rightarrow> previewer" where
  "timerFires b i st =
     (case filter (\<lambda>t. timerId t = i) (pendingTimers st) of
        [] \<Rightarrow> st
      | t # ts \<Rightarrow>
          runCallback b (timerCallback t)
            (st\<lparr>pendingTimers := filter (\<lambda>t. timerId t \<noteq> i) (pendingTimers st)\<rparr>))"

fun step :: "browser \<Rightarrow> previewer \<Rightarrow> event \<Rightarrow> previewer" where
  "step b st MouseEnter = handleMouseEnter st"
| "step b st MouseLeave = handleMouseLeave st"
| "step b st PopupMouseEnter = handlePopupMouseEnter st"
| "step b st PopupMouseLeave = handlePopupMouseLeave st"
| "step b st IframeLoad = handleIframeLoad st"
| "step b st IframeError = handleIframeError st"
| "step b st (TimerFires i) = timerFires b i st"

definition run :: "browser \<Rightarrow> previewer \<Rightarrow> event list \<Rightarrow> previewer" where
  "run b st evs = foldl (step b) st evs"

text \<open>
  Mounting renders the popup's content at once (\<open>destroyOnHide\<close> is false), and with it
  the iframe, whose source is still empty; the load event of that empty iframe calls
  \<open>handleIframeLoad\<close>. A mounted component is the created one after that event, so its
  runs begin with \<open>IframeLoad\<close>.
\<close>

definition mountedLinkPreviewer :: "browser \<Rightarrow> string \<Rightarrow> string set \<Rightarrow> string set \<Rightarrow> previewer" where
  "mountedLinkPreviewer b u loaded failed = run b (LinkPreviewer u loaded failed) [IframeLoad]"


text \<open>An event is a failure outcome of the load when it is the iframe's \<open>error\<close> or the
  firing of a pending load-timeout timer; a run is free of failure outcomes when no event
  of it is one in the state it meets.\<close>

definition failureOutcome :: "previewer \<Rightarrow> event \<Rightarrow> bool" where
  "failureOutcome st ev =
     (case ev of
        IframeError \<Rightarrow> True
      | TimerFires i \<Rightarrow>
          (case filter (\<lambda>t. timerId t = i) (pendingTimers st) of
             [] \<Rightarrow> False
           | t # ts \<Rightarrow> timerCallback t = LoadTimeoutCallback)
      | _ \<Rightarrow> False)"

fun failureFree :: "browser \<Rightarrow> previewer \<Rightarrow> event list \<Rightarrow> bool" where
  "failureFree b st [] = True"
| "failureFree b st (ev # evs) = (\<not> failureOutcome st ev \<and> failureFree b (step b st ev) evs)"

text \<open>A sample browser for concrete runs: a desktop or a phone width, and a stand-in for
  the URL constructor that accepts the strings that begin with \<open>https://\<close> and go on,
  and throws on the others. It agrees with the browser's constructor on the URLs of the
  sample runs.\<close>

definition sampleNewURL :: "string \<Rightarrow> string option" where
  "sampleNewURL u = (if take 8 u = ''https://'' \<and> 8 < length u then Some u else None)"

definition desktopBrowser :: browser where
  "desktopBrowser = \<lparr>browserInnerWidth = 1280, newURL = sampleNewURL\<rparr>"

definition phoneBrowser :: browser where
  "phoneBrowser = \<lparr>browserInnerWidth = 390, newURL = sampleNewURL\<rparr>"

section \<open>AnimationManager: the transition state machine\<close>

text \<open>
  The class \<open>AnimationManager\<close> of the implementation notes. Its \<open>show\<close> and
  \<open>hide\<close> are \<open>async\<close>: each runs up to its \<open>await\<close> when called, and the
  assignment after the \<open>await\<close> runs when the promise of \<open>waitForAnimation\<close> is
  resolved. The promises made so far are part of the state, each with the two paths that
  can resolve it: the listener on the element and the fallback timer.
\<close>

subsection \<open>Data\<close>

datatype animationState = Entering | Entered | Exiting | Exited

datatype animation = Fade | Scale | Slide | Bounce | NoAnimation | CustomAnimation

datatype direction = DirUp | DirDown | DirLeft | DirRight

text \<open>The four class strings of a preset; each may be absent in a custom one.\<close>

record animationClass =
  enter :: "string option"
  enterActive :: "string option"
  exit :: "string option"
  exitActive :: "string option"

text \<open>The fields of \<open>PopupAnimationProps\<close> the manager reads.\<close>

record animationProps =
  animation :: "animation option"
  direction :: "direction option"
  duration :: "real option"
  animationClass :: "animationClass option"

text \<open>
  One promise of \<open>waitForAnimation\<close>: the assignment that waits for it
  (\<open>continuation\<close>), whether \<open>handleAnimationEnd\<close> is still registered on the element,
  whether the fallback timer is still pending and its delay, and whether the promise is
  resolved.
\<close>

record wait =
  continuation :: animationState
  listening :: bool
  timerPending :: bool
  fallbackDelay :: real
  resolved :: bool

record manager =
  classList :: "string list"           \<comment> \<open>\<open>element.classList\<close>\<close>
  options :: animationProps
  animationState :: animationState
  waits :: "wait list"                 \<comment> \<open>the promises of \<open>waitForAnimation\<close>, oldest first\<close>

text \<open>The exceptions \<open>classList.add\<close> and \<open>classList.remove\<close> raise on a token
  that is empty or holds white space.\<close>

datatype domException = SyntaxError | InvalidCharacterError

text \<open>What a call of \<open>show\<close> or \<open>hide\<close> hands back: a promise already fulfilled (the
  early return), one that waits for the promise with the given index, or a rejected one.\<close>

datatype outcome = Returned | Awaiting nat | Rejected domException

definition AnimationManager :: "string list \<Rightarrow> animationProps \<Rightarrow> manager" where
  "AnimationManager cl opts =
     \<lparr>classList = cl, options = opts, animationState = Exited, waits = []\<rparr>"

subsection \<open>The platform\<close>

text \<open>\<open>v || d\<close> on an optional number: \<open>undefined\<close> and 0 are falsy.\<close>

definition orDefault :: "real option \<Rightarrow> real \<Rightarrow> real" where
  "orDefault v d = (case v of None \<Rightarrow> d | Some r \<Rightarrow> if r = 0 then d else r)"

text \<open>\<open>s.split(' ')\<close>: the pieces between the separators, empty pieces kept.\<close>

fun jsSplit :: "char \<Rightarrow> string \<Rightarrow> string list" where
  "jsSplit sep [] = [[]]"
| "jsSplit sep (c # cs) =
     (if c = sep then [] # jsSplit sep cs
      else (case jsSplit sep cs of [] \<Rightarrow> [[c]] | w # ws \<Rightarrow> (c # w) # ws))"

definition isAsciiWhitespace :: "char \<Rightarrow> bool" where
  "isAsciiWhitespace c \<longleftrightarrow>
     c = CHR 0x09 \<or> c = CHR 0x0A \<or> c = CHR 0x0C \<or> c = CHR 0x0D \<or> c = CHR 0x20"

fun validateTokens :: "string list \<Rightarrow> domException option" where
  "validateTokens [] = None"
| "validateTokens (t # ts) =
     (if t = [] then Some SyntaxError
      else if list_ex isAsciiWhitespace t then Some InvalidCharacterError
      else validateTokens ts)"

definition classList_add :: "string list \<Rightarrow> string list \<Rightarrow> domException + string list" where
  "classList_add cl tokens =
     (case validateTokens tokens of
        Some e \<Rightarrow> Inl e
      | None \<Rightarrow> Inr (foldl (\<lambda>acc t. if t \<in> set acc then acc else acc @ [t]) cl tokens))"

definition classList_remove :: "string list \<Rightarrow> string list \<Rightarrow> domException + string list" where
  "classList_remove cl tokens =
     (case validateTokens tokens of
        Some e \<Rightarrow> Inl e
      | None \<Rightarrow> Inr (filter (\<lambda>c. c \<notin> set tokens) cl))"

subsection \<open>Presets\<close>

text \<open>The presets splice numbers into class names (\<open>duration-${duration}\<close>); how
  JavaScript prints a number is the parameter \<open>numberToString\<close>.\<close>

definition getSlideAnimation :: "(real \<Rightarrow> string) \<Rightarrow> direction option \<Rightarrow> real option \<Rightarrow> animationClass" where
  "getSlideAnimation numberToString dir0 duration0 =
     (let dir = (case dir0 of None \<Rightarrow> DirUp | Some d \<Rightarrow> d);
          dur = orDefault duration0 200;
          whole = numberToString dur;
          part = numberToString (real_of_int \<lfloor>dur * 0.75\<rfloor>)
      in case dir of
           DirUp \<Rightarrow>
             \<lparr>enter = Some ''opacity-0 transform translate-y-2'',
              enterActive = Some (''opacity-100 transform translate-y-0 transition-all duration-'' @ whole @ '' ease-out''),
              exit = Some ''opacity-100 transform translate-y-0'',
              exitActive = Some (''opacity-0 transform translate-y-2 transition-all duration-'' @ part @ '' ease-in'')\<rparr>
         | DirDown \<Rightarrow>
             \<lparr>enter = Some ''opacity-0 transform -translate-y-2'',
              enterActive = Some (''opacity-100 transform translate-y-0 transition-all duration-'' @ whole @ '' ease-out''),
              exit = Some ''opacity-100 transform translate-y-0'',
              exitActive = Some (''opacity-0 transform -translate-y-2 transition-all duration-'' @ part @ '' ease-in'')\<rparr>
         | DirLeft \<Rightarrow>
             \<lparr>enter = Some ''opacity-0 transform translate-x-2'',
              enterActive = Some (''opacity-100 transform translate-x-0 transition-all duration-'' @ whole @ '' ease-out''),
              exit = Some ''opacity-100 transform translate-x-0'',
              exitActive = Some (''opacity-0 transform translate-x-2 transition-all duration-'' @ part @ '' ease-in'')\<rparr>
         | DirRight \<Rightarrow>
             \<lparr>enter = Some ''opacity-0 transform -translate-x-2'',
              enterActive = Some (''opacity-100 transform translate-x-0 transition-all duration-'' @ whole @ '' ease-out''),
              exit = Some ''opacity-100 transform translate-x-0'',
              exitActive = Some (''opacity-0 transform -translate-x-2 transition-all duration-'' @ part @ '' ease-in'')\<rparr>)"

text \<open>The object of \<open>case 'fade'\<close>, which the \<open>default\<close> case returns as well
  (through \<open>this.getPresetAnimation('fade')\<close>).\<close>

definition fadePreset :: "(real \<Rightarrow> string) \<Rightarrow> real \<Rightarrow> animationClass" where
  "fadePreset numberToString dur =
     \<lparr>enter = Some ''opacity-0'',
      enterActive = Some (''opacity-100 transition-opacity duration-'' @ numberToString dur),
      exit = Some ''opacity-100'',
      exitActive = Some (''opacity-0 transition-opacity duration-''
                          @ numberToString (real_of_int \<lfloor>dur * 0.75\<rfloor>))\<rparr>"

definition getPresetAnimation ::
  "(real \<Rightarrow> string) \<Rightarrow> animationProps \<Rightarrow> animation option \<Rightarrow> direction option \<Rightarrow> animationClass" where
  "getPresetAnimation numberToString opts anim dir =
     (let dur = orDefault (duration opts) 200
      in case anim of
           Some Fade \<Rightarrow> fadePreset numberToString dur
         | Some Scale \<Rightarrow>
             \<lparr>enter = Some ''opacity-0 scale-95'',
              enterActive = Some (''opacity-100 scale-100 transition-all duration-''
                                  @ numberToString dur @ '' ease-out''),
              exit = Some ''opacity-100 scale-100'',
              exitActive = Some (''opacity-0 scale-95 transition-all duration-''
                                  @ numberToString (real_of_int \<lfloor>dur * 0.75\<rfloor>) @ '' ease-in'')\<rparr>
         | Some Slide \<Rightarrow> getSlideAnimation numberToString dir (Some dur)
         | Some Bounce \<Rightarrow>
             \<lparr>enter = Some ''opacity-0 scale-0'',
              enterActive = Some (''opacity-100 scale-100 transition-all duration-''
                                  @ numberToString dur @ '' ease-bounce''),
              exit = Some ''opacity-100 scale-100'',
              exitActive = Some (''opacity-0 scale-0 transition-all duration-''
                                  @ numberToString (real_of_int \<lfloor>dur * 0.75\<rfloor>) @ '' ease-in'')\<rparr>
         | _ \<Rightarrow> fadePreset numberToString dur)"

definition getAnimationPreset :: "(real \<Rightarrow> string) \<Rightarrow> animationProps \<Rightarrow> animationClass" where
  "getAnimationPreset numberToString opts =
     (case animationClass opts of
        Some custom \<Rightarrow> custom
      | None \<Rightarrow>
          if animation opts = Some NoAnimation then
            \<lparr>enter = Some [], enterActive = Some [], exit = Some [], exitActive = Some []\<rparr>
          else getPresetAnimation numberToString opts (animation opts) (direction opts))"

subsection \<open>Class changes\<close>

text \<open>\<open>if (classes) this.element.classList.add(...classes.split(' '))\<close>, and the same
  with \<open>remove\<close>.\<close>

definition addClasses :: "string option \<Rightarrow> manager \<Rightarrow> domException + manager" where
  "addClasses classes m =
     (case classes of
        None \<Rightarrow> Inr m
      | Some s \<Rightarrow>
          if s = [] then Inr m
          else (case classList_add (classList m) (jsSplit CHR '' '' s) of
                  Inl e \<Rightarrow> Inl e
                | Inr cl \<Rightarrow> Inr (m\<lparr>classList := cl\<rparr>)))"

definition removeClasses :: "string option \<Rightarrow> manager \<Rightarrow> domException + manager" where
  "removeClasses classes m =
     (case classes of
        None \<Rightarrow> Inr m
      | Some s \<Rightarrow>
          if s = [] then Inr m
          else (case classList_remove (classList m) (jsSplit CHR '' '' s) of
                  Inl e \<Rightarrow> Inl e
                | Inr cl \<Rightarrow> Inr (m\<lparr>classList := cl\<rparr>)))"

text \<open>
  The four \<open>apply...Classes\<close> methods. \<open>classList.add\<close> and \<open>classList.remove\<close>
  check every token before they change anything, so a call that throws leaves the class
  list as it found it; \<open>applyExitClasses\<close> has already removed the enter-active
  classes when its \<open>add\<close> throws. An exception therefore comes with the manager as it
  is at the throw.
\<close>

definition applyEnterClasses ::
  "(real \<Rightarrow> string) \<Rightarrow> manager \<Rightarrow> (domException \<times> manager) + manager" where
  "applyEnterClasses numberToString m =
     (case addClasses (enter (getAnimationPreset numberToString (options m))) m of
        Inl e \<Rightarrow> Inl (e, m)
      | Inr m1 \<Rightarrow> Inr m1)"

definition applyEnterActiveClasses ::
  "(real \<Rightarrow> string) \<Rightarrow> manager \<Rightarrow> (domException \<times> manager) + manager" where
  "applyEnterActiveClasses numberToString m =
     (case addClasses (enterActive (getAnimationPreset numberToString (options m))) m of
        Inl e \<Rightarrow> Inl (e, m)
      | Inr m1 \<Rightarrow> Inr m1)"

definition applyExitClasses ::
  "(real \<Rightarrow> string) \<Rightarrow> manager \<Rightarrow> (domException \<times> manager) + manager" where
  "applyExitClasses numberToString m =
     (let preset = getAnimationPreset numberToString (options m)
      in case removeClasses (enterActive preset) m of
           Inl e \<Rightarrow> Inl (e, m)
         | Inr m1 \<Rightarrow>
             (case addClasses (exit preset) m1 of
                Inl e \<Rightarrow> Inl (e, m1)
              | Inr m2 \<Rightarrow> Inr m2))"

definition applyExitActiveClasses ::
  "(real \<Rightarrow> string) \<Rightarrow> manager \<Rightarrow> (domException \<times> manager) + manager" where
  "applyExitActiveClasses numberToString m =
     (case addClasses (exitActive (getAnimationPreset numberToString (options m))) m of
        Inl e \<Rightarrow> Inl (e, m)
      | Inr m1 \<Rightarrow> Inr m1)"

subsection \<open>Waiting, showing, hiding\<close>

text \<open>
  \<open>waitForAnimation\<close> makes a promise, registers \<open>handleAnimationEnd\<close> for
  \<open>animationend\<close> and \<open>transitionend\<close>, and starts the fallback timer with
  \<open>this.options.duration || 300\<close>. The argument \<open>after\<close> is the state the caller
  assigns once the promise is resolved.
\<close>

definition waitForAnimation :: "animationState \<Rightarrow> manager \<Rightarrow> nat \<times> manager" where
  "waitForAnimation after m =
     (length (waits m),
      m\<lparr>waits := waits m @
           [\<lparr>continuation = after, listening = True, timerPending = True,
             fallbackDelay = orDefault (duration (options m)) 300, resolved = False\<rparr>]\<rparr>)"

definition show_popup :: "(real \<Rightarrow> string) \<Rightarrow> manager \<Rightarrow> outcome \<times> manager" where
  "show_popup numberToString m =
     (if animationState m = Entering \<or> animationState m = Entered then (Returned, m)
      else
        let m1 = m\<lparr>animationState := Entering\<rparr>
        in case applyEnterClasses numberToString m1 of
             Inl (e, m') \<Rightarrow> (Rejected e, m')
           | Inr m2 \<Rightarrow>
               (case applyEnterActiveClasses numberToString m2 of
                  Inl (e, m') \<Rightarrow> (Rejected e, m')
                | Inr m3 \<Rightarrow>
                    (let (i, m4) = waitForAnimation Entered m3 in (Awaiting i, m4))))"

definition hide_popup :: "(real \<Rightarrow> string) \<Rightarrow> manager \<Rightarrow> outcome \<times> manager" where
  "hide_popup numberToString m =
     (if animationState m = Exiting \<or> animationState m = Exited then (Returned, m)
      else
        let m1 = m\<lparr>animationState := Exiting\<rparr>
        in case applyExitClasses numberToString m1 of
             Inl (e, m') \<Rightarrow> (Rejected e, m')
           | Inr m2 \<Rightarrow>
               (case applyExitActiveClasses numberToString m2 of
                  Inl (e, m') \<Rightarrow> (Rejected e, m')
                | Inr m3 \<Rightarrow>
                    (let (i, m4) = waitForAnimation Exited m3 in (Awaiting i, m4))))"

subsection \<open>Completion\<close>

text \<open>
  An \<open>animationend\<close> or \<open>transitionend\<close> event on the element calls every registered
  \<open>handleAnimationEnd\<close> in the order of registration: the handler removes itself and
  resolves its promise. Resolving a promise that is already resolved does nothing;
  resolving a pending one runs the assignment that waits for it.
\<close>

fun dispatchEnd :: "wait list \<Rightarrow> animationState \<Rightarrow> wait list \<times> animationState" where
  "dispatchEnd [] s = ([], s)"
| "dispatchEnd (w # ws) s =
     (if listening w then
        (let (ws', s') = dispatchEnd ws (if resolved w then s else continuation w)
         in (w\<lparr>listening := False, resolved := True\<rparr> # ws', s'))
      else
        (let (ws', s') = dispatchEnd ws s in (w # ws', s')))"

definition animationEnds :: "manager \<Rightarrow> manager" where
  "animationEnds m =
     (let (ws, s) = dispatchEnd (waits m) (animationState m)
      in m\<lparr>waits := ws, animationState := s\<rparr>)"

text \<open>The fallback timer of the promise with index \<open>i\<close> fires: it calls \<open>resolve\<close>
  and leaves the listener registered.\<close>

definition fallbackTimerFires :: "nat \<Rightarrow> manager \<Rightarrow> manager" where
  "fallbackTimerFires i m =
     (if i < length (waits m) \<and> timerPending (waits m ! i) then
        let w = waits m ! i
        in m\<lparr>waits := (waits m)[i := w\<lparr>timerPending := False, resolved := True\<rparr>],
             animationState := (if resolved w then animationState m else continuation w)\<rparr>
      else m)"

datatype animationEvent = Show | Hide | AnimationEnd | FallbackTimerFires nat

fun animationStep :: "(real \<Rightarrow> string) \<Rightarrow> manager \<Rightarrow> animationEvent \<Rightarrow> manager" where
  "animationStep numberToString m Show = snd (show_popup numberToString m)"
| "animationStep numberToString m Hide = snd (hide_popup numberToString m)"
| "animationStep numberToString m AnimationEnd = animationEnds m"
| "animationStep numberToString m (FallbackTimerFires i) = fallbackTimerFires i m"

definition animationRun :: "(real \<Rightarrow> string) \<Rightarrow> manager \<Rightarrow> animationEvent list \<Rightarrow> manager" where
  "animationRun numberToString m evs = foldl (animationStep numberToString) m evs"

text \<open>Every promise that is not resolved yet has its listener registered and its timer
  pending, and every fallback delay is the one \<open>waitForAnimation\<close> computes.\<close>

definition waitsArmed :: "manager \<Rightarrow> bool" where
  "waitsArmed m \<longleftrightarrow>
     (\<forall>w \<in> set (waits m). fallbackDelay w = orDefault (duration (options m)) 300 \<and>
        (\<not> resolved w \<longrightarrow> listening w \<and> timerPending w))"

definition freshWait :: "animationProps \<Rightarrow> animationState \<Rightarrow> wait" where
  "freshWait opts after =
     \<lparr>continuation = after, listening = True, timerPending = True,
      fallbackDelay = orDefault (duration opts) 300, resolved = False\<rparr>"


text \<open>For concrete runs: a number printer that gives the decimal digits of the whole
  part (what JavaScript prints for the whole numbers the sample runs use), and the fade
  preset with a given duration.\<close>

function decimal :: "nat \<Rightarrow> string" where
  "decimal n =
     (if n < 10 then [''0123456789'' ! n]
      else decimal (n div 10) @ [''0123456789'' ! (n mod 10)])"
  by pat_completeness auto
termination
  by (relation "measure id") auto

declare decimal.simps [simp del]

definition sampleNumberToString :: "real \<Rightarrow> string" where
  "sampleNumberToString r = decimal (nat \<lfloor>r\<rfloor>)"

definition fadeProps :: "real option \<Rightarrow> animationProps" where
  "fadeProps d = \<lparr>animation = Some Fade, direction = None, duration = d, animationClass = None\<rparr>"

section \<open>Theorems\<close>

subsection \<open>Position resolver\<close>

lemmas calculatePosition_defs =
  calculatePosition_def getResponsiveSize_def clampAxis_def flipEnabled_def
  placementOrDefault_def offsetOrDefault_def bottom_def right_def Let_def











text \<open>
  Both conditions on y are needed. The check clamps to the margin, not to
  the viewport's edge: in a 1200 by 205 viewport the 200 high popup is smaller than the
  viewport and is still placed at y = -5. And a flipped coordinate is assigned after the
  check: over an anchor that lies above the viewport, a flipped \<open>top\<close> gives y = -280.
\<close>

lemma clamp_needs_room_for_margin:
  "rsHeight (getResponsiveSize \<lparr>innerWidth = 1200, innerHeight = 205\<rparr>) < 205 \<and>
   y (calculatePosition \<lparr>innerWidth = 1200, innerHeight = 205\<rparr>
        \<lparr>target = Some (Element \<lparr>left = 500, top = 0, width = 100, height = 10\<rparr> None),
         placement = Some Bottom, offset = None,
         autoAdjust = Some True, flip = None, variant = None\<rparr>) = - 5"
  by (simp add: calculatePosition_defs)

lemma flipped_coordinate_not_clamped:
  "y (calculatePosition \<lparr>innerWidth = 1200, innerHeight = 800\<rparr>
        \<lparr>target = Some (Element \<lparr>left = 500, top = - 300, width = 100, height = 20\<rparr> None),
         placement = Some Top, offset = None,
         autoAdjust = Some True, flip = Some True, variant = Some Tooltip\<rparr>) = - 280"
  by (simp add: calculatePosition_defs)

text \<open>
  C2 (as the code has it). An explicit point is returned as it is: for the anchor point
  (100, 50), placement bottom, offset [0, 10] and an 800 by 600 viewport the result is
  x = 100, y = 50, label \<open>custom\<close>, adjusted = false, whatever autoAdjust and flip say.
  An element without a property \<open>x\<close> whose bounding box is the empty rectangle at
  (100, 50) is placed and clamped:
  the viewport is a tablet one, so the popup is 400 by 300 with margin 20, the natural x is
  100 - 200 = -100, clamped to 20, y is 50 + 10 = 60 and adjusted is true.
\<close>

theorem C2_point_anchor_returned_unclamped:
  "calculatePosition \<lparr>innerWidth = 800, innerHeight = 600\<rparr>
     \<lparr>target = Some (Point 100 50), placement = Some Bottom, offset = Some (0, 10),
      autoAdjust = aa, flip = fl, variant = vr\<rparr>
   = \<lparr>x = 100, y = 50, placementLabel = Custom, adjusted = False\<rparr>
   \<and> calculatePosition \<lparr>innerWidth = 800, innerHeight = 600\<rparr>
     \<lparr>target = Some (Element \<lparr>left = 100, top = 50, width = 0, height = 0\<rparr> None),
      placement = Some Bottom, offset = Some (0, 10),
      autoAdjust = Some True, flip = None, variant = None\<rparr>
   = \<lparr>x = 20, y = 60, placementLabel = Bottom, adjusted = True\<rparr>"
  by (simp add: calculatePosition_defs)

text \<open>
  C2 as stated fails: for the point anchor the result is not x = 10, y = 60,
  adjusted = true.
\<close>

theorem C2_point_anchor_counterexample:
  "\<not> (x (calculatePosition \<lparr>innerWidth = 800, innerHeight = 600\<rparr>
          \<lparr>target = Some (Point 100 50), placement = Some Bottom, offset = Some (0, 10),
           autoAdjust = Some True, flip = Some True, variant = None\<rparr>) = 10 \<and>
      y (calculatePosition \<lparr>innerWidth = 800, innerHeight = 600\<rparr>
          \<lparr>target = Some (Point 100 50), placement = Some Bottom, offset = Some (0, 10),
           autoAdjust = Some True, flip = Some True, variant = None\<rparr>) = 60 \<and>
      adjusted (calculatePosition \<lparr>innerWidth = 800, innerHeight = 600\<rparr>
          \<lparr>target = Some (Point 100 50), placement = Some Bottom, offset = Some (0, 10),
           autoAdjust = Some True, flip = Some True, variant = None\<rparr>))"
  by (simp add: calculatePosition_defs)

text \<open>
  C3 (as the code has it). For an element anchor that has no property \<open>x\<close> and a
  requested \<open>top\<close> whose natural y (anchor top - popup height + offset) is below the
  margin, in particular negative: when the flip applies (flip set and variant tooltip or
  dropdown), y is the anchor's bottom plus the y offset and adjusted is true, so y is
  non-negative exactly when the anchor's bottom plus the offset is; when the flip does not
  apply, nothing is flipped: y is clamped to the margin, adjusted is true and the label is
  \<open>top\<close>. An element that has a property \<open>x\<close> is taken for a point: whatever
  placement and flip say, the result is that point under the label \<open>custom\<close> with
  adjusted false.
\<close>

theorem C3_top_flip_moves_y_below_anchor:
  "(target props = Some (Element r None) \<and> placement props = Some Top \<and>
    top r - rsHeight (getResponsiveSize w) + snd (offsetOrDefault props)
      < rsMargin (getResponsiveSize w) \<and>
    flipEnabled props
    \<longrightarrow> y (calculatePosition w props) = bottom r + snd (offsetOrDefault props) \<and>
        adjusted (calculatePosition w props) \<and>
        (0 \<le> y (calculatePosition w props) \<longleftrightarrow> 0 \<le> bottom r + snd (offsetOrDefault props))) \<and>
   (target props = Some (Element r None) \<and> placement props = Some Top \<and>
    top r - rsHeight (getResponsiveSize w) + snd (offsetOrDefault props)
      < rsMargin (getResponsiveSize w) \<and>
    \<not> flipEnabled props
    \<longrightarrow> y (calculatePosition w props) = rsMargin (getResponsiveSize w) \<and>
        adjusted (calculatePosition w props) \<and>
        placementLabel (calculatePosition w props) = Top) \<and>
   (target props = Some (Element r (Some (px, py)))
    \<longrightarrow> calculatePosition w props
          = \<lparr>x = px, y = py, placementLabel = Custom, adjusted = False\<rparr>)"
  by (auto simp add: calculatePosition_def placementOrDefault_def clampAxis_def Let_def
      split: prod.splits)

theorem C3_top_flip_moves_y_below_anchor_witness:
  "y (calculatePosition \<lparr>innerWidth = 1200, innerHeight = 800\<rparr>
        \<lparr>target = Some (Element \<lparr>left = 500, top = 50, width = 100, height = 20\<rparr> None),
         placement = Some Top, offset = None,
         autoAdjust = Some True, flip = Some True, variant = Some Tooltip\<rparr>) = 70 \<and>
   adjusted (calculatePosition \<lparr>innerWidth = 1200, innerHeight = 800\<rparr>
        \<lparr>target = Some (Element \<lparr>left = 500, top = 50, width = 100, height = 20\<rparr> None),
         placement = Some Top, offset = None,
         autoAdjust = Some True, flip = Some True, variant = Some Tooltip\<rparr>) \<and>
   y (calculatePosition \<lparr>innerWidth = 1200, innerHeight = 800\<rparr>
        \<lparr>target = Some (Element \<lparr>left = 500, top = 50, width = 100, height = 20\<rparr> None),
         placement = Some Top, offset = None,
         autoAdjust = Some True, flip = Some True, variant = Some Default\<rparr>) = 10 \<and>
   calculatePosition \<lparr>innerWidth = 1200, innerHeight = 800\<rparr>
        \<lparr>target = Some (Element \<lparr>left = 500, top = 50, width = 100, height = 20\<rparr>
                         (Some (500, 50))),
         placement = Some Top, offset = None,
         autoAdjust = Some True, flip = Some True, variant = Some Tooltip\<rparr>
     = \<lparr>x = 500, y = 50, placementLabel = Custom, adjusted = False\<rparr>"
  using
    C3_top_flip_moves_y_below_anchor [of
      "\<lparr>target = Some (Element \<lparr>left = 500, top = 50, width = 100, height = 20\<rparr> None),
        placement = Some Top, offset = None,
        autoAdjust = Some True, flip = Some True, variant = Some Tooltip\<rparr>"
      "\<lparr>left = 500, top = 50, width = 100, height = 20\<rparr>"
      "\<lparr>innerWidth = 1200, innerHeight = 800\<rparr>"]
    C3_top_flip_moves_y_below_anchor [of
      "\<lparr>target = Some (Element \<lparr>left = 500, top = 50, width = 100, height = 20\<rparr> None),
        placement = Some Top, offset = None,
        autoAdjust = Some True, flip = Some True, variant = Some Default\<rparr>"
      "\<lparr>left = 500, top = 50, width = 100, height = 20\<rparr>"
      "\<lparr>innerWidth = 1200, innerHeight = 800\<rparr>"]
    C3_top_flip_moves_y_below_anchor [of
      "\<lparr>target = Some (Element \<lparr>left = 500, top = 50, width = 100, height = 20\<rparr>
                       (Some (500, 50))),
        placement = Some Top, offset = None,
        autoAdjust = Some True, flip = Some True, variant = Some Tooltip\<rparr>"
      "\<lparr>left = 500, top = 50, width = 100, height = 20\<rparr>"
      "\<lparr>innerWidth = 1200, innerHeight = 800\<rparr>" 500 50]
  by (simp add: getResponsiveSize_def flipEnabled_def offsetOrDefault_def bottom_def)

text \<open>
  C3 as stated fails: the anchor is an element without a property \<open>x\<close>, the popup
  has flip set and the default variant (as the link previewer
  configures it), \<open>top\<close> is requested over an anchor at the top of a 1200 by 800 viewport,
  the natural y is 50 - 200 = -150, and the result is not flipped: y = 10, label \<open>top\<close>.
\<close>

theorem C3_unflipped_variant_counterexample:
  "flip \<lparr>target = Some (Element \<lparr>left = 500, top = 50, width = 100, height = 20\<rparr> None),
         placement = Some Top, offset = None,
         autoAdjust = Some True, flip = Some True, variant = Some Default\<rparr> = Some True \<and>
   snd (initialPosition \<lparr>innerWidth = 1200, innerHeight = 800\<rparr>
          \<lparr>left = 500, top = 50, width = 100, height = 20\<rparr>
          (rsWidth (getResponsiveSize \<lparr>innerWidth = 1200, innerHeight = 800\<rparr>))
          (rsHeight (getResponsiveSize \<lparr>innerWidth = 1200, innerHeight = 800\<rparr>))
          (0, 0) Top) < 0 \<and>
   calculatePosition \<lparr>innerWidth = 1200, innerHeight = 800\<rparr>
        \<lparr>target = Some (Element \<lparr>left = 500, top = 50, width = 100, height = 20\<rparr> None),
         placement = Some Top, offset = None,
         autoAdjust = Some True, flip = Some True, variant = Some Default\<rparr>
     = \<lparr>x = 350, y = 10, placementLabel = Top, adjusted = True\<rparr> \<and>
   placementLabel (calculatePosition \<lparr>innerWidth = 1200, innerHeight = 800\<rparr>
        \<lparr>target = Some (Element \<lparr>left = 500, top = 50, width = 100, height = 20\<rparr> None),
         placement = Some Top, offset = None,
         autoAdjust = Some True, flip = Some True, variant = Some Default\<rparr>) \<noteq> Bottom"
  by (simp add: calculatePosition_defs)

text \<open>
  Where the flip applies, the result still carries the requested label: the flip block
  assigns the coordinate only. The claims above say nothing of the label after a flip.
\<close>

lemma flipped_result_keeps_requested_label:
  "target props = Some (Element r None) \<Longrightarrow>
   placementLabel (calculatePosition w props) = placementOrDefault props"
  by (auto simp add: calculatePosition_def Let_def split: prod.splits)

text \<open>
  C7 (as the code has it). \<open>auto\<close> has no case in the switch and no branch in the flip
  block: for an element anchor that has no property \<open>x\<close> the result for \<open>auto\<close> is
  the result for \<open>bottom\<close> with the flip off, under the label \<open>auto\<close>. The
  available space is not consulted; the result is a function of the inputs, so the choice
  is deterministic. An element that has a property \<open>x\<close> is taken for a point, and the
  result is that point under the label \<open>custom\<close>, with \<open>auto\<close> as with any other
  placement.
\<close>

theorem C7_auto_is_unflipped_bottom:
  "(target props = Some (Element r None)
    \<longrightarrow> calculatePosition w (props\<lparr>placement := Some Auto\<rparr>)
          = (calculatePosition w (props\<lparr>placement := Some Bottom, flip := None\<rparr>))
              \<lparr>placementLabel := Auto\<rparr>) \<and>
   (target props = Some (Element r (Some (px, py)))
    \<longrightarrow> calculatePosition w (props\<lparr>placement := Some Auto\<rparr>)
          = \<lparr>x = px, y = py, placementLabel = Custom, adjusted = False\<rparr>)"
  by (auto simp add: calculatePosition_def placementOrDefault_def offsetOrDefault_def
      flipEnabled_def Let_def split: prod.splits)

theorem C7_auto_is_unflipped_bottom_witness:
  "calculatePosition \<lparr>innerWidth = 1200, innerHeight = 800\<rparr>
     \<lparr>target = Some (Element \<lparr>left = 500, top = 700, width = 100, height = 50\<rparr> None),
      placement = Some Auto, offset = None,
      autoAdjust = Some True, flip = Some True, variant = Some Tooltip\<rparr>
   = \<lparr>x = 350, y = 590, placementLabel = Auto, adjusted = True\<rparr> \<and>
   calculatePosition \<lparr>innerWidth = 1200, innerHeight = 800\<rparr>
     \<lparr>target = Some (Element \<lparr>left = 500, top = 700, width = 100, height = 50\<rparr>
                      (Some (500, 700))),
      placement = Some Auto, offset = None,
      autoAdjust = Some True, flip = Some True, variant = Some Tooltip\<rparr>
   = \<lparr>x = 500, y = 700, placementLabel = Custom, adjusted = False\<rparr>"
  using
    C7_auto_is_unflipped_bottom [of
      "\<lparr>target = Some (Element \<lparr>left = 500, top = 700, width = 100, height = 50\<rparr> None),
        placement = Some Top, offset = None,
        autoAdjust = Some True, flip = Some True, variant = Some Tooltip\<rparr>"
      "\<lparr>left = 500, top = 700, width = 100, height = 50\<rparr>"
      "\<lparr>innerWidth = 1200, innerHeight = 800\<rparr>"]
    C7_auto_is_unflipped_bottom [of
      "\<lparr>target = Some (Element \<lparr>left = 500, top = 700, width = 100, height = 50\<rparr>
                       (Some (500, 700))),
        placement = Some Top, offset = None,
        autoAdjust = Some True, flip = Some True, variant = Some Tooltip\<rparr>"
      "\<lparr>left = 500, top = 700, width = 100, height = 50\<rparr>"
      "\<lparr>innerWidth = 1200, innerHeight = 800\<rparr>" 500 700]
  by (simp add: calculatePosition_defs)

text \<open>
  C7 as stated fails: the anchor, an element without a property \<open>x\<close>, sits near the
  bottom of a 1200 by 800 viewport, the space
  above it (700) is larger than the space below (50), left (500) and right (600), and
  \<open>auto\<close> still places the popup as \<open>bottom\<close> does (y = 750, clamped to 590), not as
  \<open>top\<close> does (y = 500).
\<close>

theorem C7_largest_space_counterexample:
  "spec_availableSpace \<lparr>innerWidth = 1200, innerHeight = 800\<rparr>
      \<lparr>left = 500, top = 700, width = 100, height = 50\<rparr> Bottom
     < spec_availableSpace \<lparr>innerWidth = 1200, innerHeight = 800\<rparr>
      \<lparr>left = 500, top = 700, width = 100, height = 50\<rparr> Top \<and>
   spec_availableSpace \<lparr>innerWidth = 1200, innerHeight = 800\<rparr>
      \<lparr>left = 500, top = 700, width = 100, height = 50\<rparr> Left
     < spec_availableSpace \<lparr>innerWidth = 1200, innerHeight = 800\<rparr>
      \<lparr>left = 500, top = 700, width = 100, height = 50\<rparr> Top \<and>
   spec_availableSpace \<lparr>innerWidth = 1200, innerHeight = 800\<rparr>
      \<lparr>left = 500, top = 700, width = 100, height = 50\<rparr> Right
     < spec_availableSpace \<lparr>innerWidth = 1200, innerHeight = 800\<rparr>
      \<lparr>left = 500, top = 700, width = 100, height = 50\<rparr> Top \<and>
   y (calculatePosition \<lparr>innerWidth = 1200, innerHeight = 800\<rparr>
        \<lparr>target = Some (Element \<lparr>left = 500, top = 700, width = 100, height = 50\<rparr> None),
         placement = Some Auto, offset = None,
         autoAdjust = Some True, flip = Some True, variant = Some Tooltip\<rparr>) = 590 \<and>
   y (calculatePosition \<lparr>innerWidth = 1200, innerHeight = 800\<rparr>
        \<lparr>target = Some (Element \<lparr>left = 500, top = 700, width = 100, height = 50\<rparr> None),
         placement = Some Top, offset = None,
         autoAdjust = Some True, flip = Some True, variant = Some Tooltip\<rparr>) = 500 \<and>
   y (calculatePosition \<lparr>innerWidth = 1200, innerHeight = 800\<rparr>
        \<lparr>target = Some (Element \<lparr>left = 500, top = 700, width = 100, height = 50\<rparr> None),
         placement = Some Bottom, offset = None,
         autoAdjust = Some True, flip = None, variant = Some Tooltip\<rparr>) = 590"
  by (simp add: calculatePosition_defs)

subsection \<open>Link previewer\<close>

lemmas handler_defs =
  handleMouseEnter_def handleMouseLeave_def handlePopupMouseEnter_def handlePopupMouseLeave_def
  handleIframeLoad_def handleIframeError_def timerFires_def runCallback_def
  showPreview_def loadPreview_def loadPreviewContent_def setSrcFires_def loadTimeoutFires_def
  setTimeout_def clearTimeout_def

lemmas sample_defs =
  run_def LinkPreviewer_def desktopBrowser_def phoneBrowser_def sampleNewURL_def isValidUrl_def
  isMobileDevice_def DEBOUNCE_DELAY_def LOAD_TIMEOUT_def HIDE_DELAY_def Let_def

lemma step_url: "url (step b st ev) = url st"
  by (cases ev)
    (auto simp add: handler_defs Let_def split: list.splits timerCallback.splits option.splits)

lemma step_loadedUrls:
  "loadedUrls (step b st ev) =
     (if ev = IframeLoad then insert (url st) (loadedUrls st) else loadedUrls st)"
  by (cases ev)
    (auto simp add: handler_defs Let_def split: list.splits timerCallback.splits option.splits)

lemma step_failedUrls:
  "failedUrls (step b st ev) =
     (if failureOutcome st ev then insert (url st) (failedUrls st) else failedUrls st)"
  by (cases ev)
    (auto simp add: handler_defs failureOutcome_def Let_def
      split: list.splits timerCallback.splits option.splits)

lemma run_Cons: "run b st (ev # evs) = run b (step b st ev) evs"
  by (simp add: run_def)

lemma run_loadedUrls:
  "loadedUrls (run b st evs) =
     (if IframeLoad \<in> set evs then insert (url st) (loadedUrls st) else loadedUrls st)"
proof (induction evs arbitrary: st)
  case Nil
  show ?case by (simp add: run_def)
next
  case (Cons ev evs)
  from Cons.IH [of "step b st ev"] show ?case
    by (auto simp add: run_Cons step_url step_loadedUrls simp del: step.simps)
qed

lemma run_failedUrls:
  "failedUrls (run b st evs) =
     (if failureFree b st evs then failedUrls st else insert (url st) (failedUrls st))"
proof (induction evs arbitrary: st)
  case Nil
  show ?case by (simp add: run_def)
next
  case (Cons ev evs)
  from Cons.IH [of "step b st ev"] show ?case
    by (auto simp add: run_Cons step_url step_failedUrls simp del: step.simps)
qed

lemma run_url: "url (run b st evs) = url st"
  by (induction evs arbitrary: st) (simp_all add: run_def step_url del: step.simps)

text \<open>From the mounting on, the component's URL is in \<open>loadedUrls\<close>; so in a mounted
  component \<open>loadPreview\<close> never reaches its failure branch or \<open>loadPreviewContent\<close>.\<close>

lemma mounted_url_is_loaded:
  "url (run b (mountedLinkPreviewer b u loaded failed) evs)
     \<in> loadedUrls (run b (mountedLinkPreviewer b u loaded failed) evs)"
  by (simp add: run_url run_loadedUrls mountedLinkPreviewer_def del: step.simps)

text \<open>
  C4 (as the code has it). Each handler leaves both caches as they are or adds the
  component's own URL to one of them: the iframe's \<open>load\<close> adds it to \<open>loadedUrls\<close>,
  the iframe's \<open>error\<close> and the load timeout add it to \<open>failedUrls\<close>, and no other
  event changes a cache; nothing is removed and no handler looks at the other set. So after
  any sequence of events \<open>loadedUrls\<close> is what it was, with the URL added if a \<open>load\<close>
  occurred, and \<open>failedUrls\<close> is what it was, with the URL added if a failure outcome
  occurred. For a component whose URL is in \<open>loadedUrls\<close>, as it is from the mounting
  on, caches that are disjoint stay disjoint exactly as long as no failure outcome arrives.
\<close>

theorem C4_caches_grow_by_own_url:
  "loadedUrls (handleIframeLoad st) = insert (url st) (loadedUrls st) \<and>
   failedUrls (handleIframeLoad st) = failedUrls st \<and>
   failedUrls (handleIframeError st) = insert (url st) (failedUrls st) \<and>
   loadedUrls (handleIframeError st) = loadedUrls st \<and>
   failedUrls (loadTimeoutFires st) = insert (url st) (failedUrls st) \<and>
   loadedUrls (loadTimeoutFires st) = loadedUrls st \<and>
   loadedUrls (step b st ev) =
     (if ev = IframeLoad then insert (url st) (loadedUrls st) else loadedUrls st) \<and>
   failedUrls (step b st ev) =
     (if failureOutcome st ev then insert (url st) (failedUrls st) else failedUrls st) \<and>
   loadedUrls (run b st evs) =
     (if IframeLoad \<in> set evs then insert (url st) (loadedUrls st) else loadedUrls st) \<and>
   failedUrls (run b st evs) =
     (if failureFree b st evs then failedUrls st else insert (url st) (failedUrls st)) \<and>
   (url st \<in> loadedUrls st \<and> loadedUrls st \<inter> failedUrls st = {}
    \<longrightarrow> (loadedUrls (run b st evs) \<inter> failedUrls (run b st evs) = {}
           \<longleftrightarrow> failureFree b st evs))"
proof -
  have handlers:
    "loadedUrls (handleIframeLoad st) = insert (url st) (loadedUrls st)"
    "failedUrls (handleIframeLoad st) = failedUrls st"
    "failedUrls (handleIframeError st) = insert (url st) (failedUrls st)"
    "loadedUrls (handleIframeError st) = loadedUrls st"
    "failedUrls (loadTimeoutFires st) = insert (url st) (failedUrls st)"
    "loadedUrls (loadTimeoutFires st) = loadedUrls st"
    by (simp_all add: handleIframeLoad_def handleIframeError_def loadTimeoutFires_def
        clearTimeout_def Let_def split: option.splits)
  have mounted: "loadedUrls (run b st evs) \<inter> failedUrls (run b st evs) = {}
      \<longleftrightarrow> failureFree b st evs"
    if "url st \<in> loadedUrls st" and "loadedUrls st \<inter> failedUrls st = {}"
    using that by (auto simp add: run_loadedUrls run_failedUrls)
  from handlers mounted show ?thesis
    by (simp only: step_loadedUrls step_failedUrls run_loadedUrls run_failedUrls) blast
qed

theorem C4_caches_grow_by_own_url_witness:
  "url (mountedLinkPreviewer desktopBrowser ''https://fast.example'' {} {})
     \<in> loadedUrls (mountedLinkPreviewer desktopBrowser ''https://fast.example'' {} {}) \<and>
   failureFree desktopBrowser (mountedLinkPreviewer desktopBrowser ''https://fast.example'' {} {})
     [MouseEnter, TimerFires 0, IframeLoad] \<and>
   loadedUrls (run desktopBrowser (mountedLinkPreviewer desktopBrowser ''https://fast.example'' {} {})
     [MouseEnter, TimerFires 0, IframeLoad]) = {''https://fast.example''} \<and>
   failedUrls (run desktopBrowser (mountedLinkPreviewer desktopBrowser ''https://fast.example'' {} {})
     [MouseEnter, TimerFires 0, IframeLoad]) = {} \<and>
   loadedUrls (run desktopBrowser (mountedLinkPreviewer desktopBrowser ''https://fast.example'' {} {})
     [MouseEnter, TimerFires 0, IframeLoad])
     \<inter> failedUrls (run desktopBrowser
         (mountedLinkPreviewer desktopBrowser ''https://fast.example'' {} {})
         [MouseEnter, TimerFires 0, IframeLoad]) = {} \<and>
   \<not> failureFree desktopBrowser
     (mountedLinkPreviewer desktopBrowser ''https://down.example'' {} {})
     [MouseEnter, TimerFires 0, IframeError] \<and>
   failedUrls (run desktopBrowser (mountedLinkPreviewer desktopBrowser ''https://down.example'' {} {})
     [MouseEnter, TimerFires 0, IframeError]) = {''https://down.example''} \<and>
   loadedUrls (run desktopBrowser (mountedLinkPreviewer desktopBrowser ''https://down.example'' {} {})
     [MouseEnter, TimerFires 0, IframeError])
     \<inter> failedUrls (run desktopBrowser
         (mountedLinkPreviewer desktopBrowser ''https://down.example'' {} {})
         [MouseEnter, TimerFires 0, IframeError]) \<noteq> {}"
  using
    C4_caches_grow_by_own_url [of
      "mountedLinkPreviewer desktopBrowser ''https://fast.example'' {} {}"
      desktopBrowser _ "[MouseEnter, TimerFires 0, IframeLoad]"]
    C4_caches_grow_by_own_url [of
      "mountedLinkPreviewer desktopBrowser ''https://down.example'' {} {}"
      desktopBrowser _ "[MouseEnter, TimerFires 0, IframeError]"]
  by (simp add: mountedLinkPreviewer_def handler_defs sample_defs failureOutcome_def)

text \<open>
  C4 as stated fails: the component is mounted (the empty iframe's load event puts the URL
  in \<open>loadedUrls\<close>), the pointer enters the link, the debounce timer fires and the show
  request sets the iframe's source to the URL, and the iframe reports an error for it (the
  URL enters \<open>failedUrls\<close>): the URL is in both sets.
\<close>

theorem C4_error_after_mount_counterexample:
  "''https://down.example''
     \<in> loadedUrls (run desktopBrowser (LinkPreviewer ''https://down.example'' {} {})
          [IframeLoad, MouseEnter, TimerFires 0, IframeError]) \<and>
   ''https://down.example''
     \<in> failedUrls (run desktopBrowser (LinkPreviewer ''https://down.example'' {} {})
          [IframeLoad, MouseEnter, TimerFires 0, IframeError]) \<and>
   iframeSrc (run desktopBrowser (LinkPreviewer ''https://down.example'' {} {})
          [IframeLoad, MouseEnter, TimerFires 0]) = ''https://down.example''"
  by (simp add: handler_defs sample_defs)




text \<open>
  Along every run that starts from a created component with empty caches, a URL that is in
  the failure cache and not in the success cache has the error flag set, so the third
  condition of the failure case above holds of itself there.
\<close>

lemma run_snoc_step: "run b st (evs @ [ev]) = step b (run b st evs) ev"
  by (simp add: run_def)

lemma failed_only_url_has_error_step:
  "(url st \<in> failedUrls st \<and> url st \<notin> loadedUrls st \<longrightarrow> hasError st) \<Longrightarrow>
   (url (step b st ev) \<in> failedUrls (step b st ev) \<and>
    url (step b st ev) \<notin> loadedUrls (step b st ev) \<longrightarrow> hasError (step b st ev))"
  by (cases ev)
    (auto simp add: handler_defs Let_def split: list.splits timerCallback.splits option.splits)

lemma failed_only_url_has_error:
  "url (run b (LinkPreviewer u {} {}) evs) \<in> failedUrls (run b (LinkPreviewer u {} {}) evs) \<and>
   url (run b (LinkPreviewer u {} {}) evs) \<notin> loadedUrls (run b (LinkPreviewer u {} {}) evs)
   \<longrightarrow> hasError (run b (LinkPreviewer u {} {}) evs)"
proof (induction evs rule: rev_induct)
  case Nil
  show ?case by (simp add: run_def LinkPreviewer_def)
next
  case (snoc ev evs)
  from failed_only_url_has_error_step [OF snoc.IH, of b ev]
  show ?case by (simp add: run_snoc_step)
qed

text \<open>
  C6. When the URL constructor throws for the component's URL, \<open>showPreview\<close> returns
  at once with the error flag, the invalid-URL message and the previewer shown, and nothing
  else changed: no timer is started, the iframe's source and the caches are as before.
  The constructor's exception is caught in \<open>isValidUrl\<close>; \<open>showPreview\<close> yields a
  state in every case.
\<close>

theorem C6_invalid_url_error_without_load:
  "\<not> isValidUrl b (url st) \<Longrightarrow>
   showPreview b st
     = st\<lparr>hasError := True, errorMessage := InvalidUrlMessage, showPreviewer := True\<rparr> \<and>
   hasError (showPreview b st) \<and> showPreviewer (showPreview b st) \<and>
   pendingTimers (showPreview b st) = pendingTimers st \<and>
   nextTimerId (showPreview b st) = nextTimerId st \<and>
   iframeSrc (showPreview b st) = iframeSrc st"
  by (simp add: showPreview_def)

theorem C6_invalid_url_error_without_load_witness:
  "\<not> isValidUrl desktopBrowser (url (LinkPreviewer ''not a url'' {} {})) \<and>
   hasError (showPreview desktopBrowser (LinkPreviewer ''not a url'' {} {})) \<and>
   showPreviewer (showPreview desktopBrowser (LinkPreviewer ''not a url'' {} {})) \<and>
   pendingTimers (showPreview desktopBrowser (LinkPreviewer ''not a url'' {} {})) = [] \<and>
   nextTimerId (showPreview desktopBrowser (LinkPreviewer ''not a url'' {} {})) = 0"
proof -
  have invalid: "\<not> isValidUrl desktopBrowser (url (LinkPreviewer ''not a url'' {} {}))"
    by (simp add: sample_defs)
  from C6_invalid_url_error_without_load [OF invalid] invalid show ?thesis
    by (simp add: LinkPreviewer_def)
qed

text \<open>
  C10. On a viewport of width at most 768, a show request with a URL the constructor
  accepts returns with the state untouched: the previewer is not shown and no load is
  started. With a URL the constructor rejects, the error overlay is shown all the same,
  since the URL is checked before the width.
\<close>

theorem C10_mobile_gate_after_url_check:
  "(browserInnerWidth b \<le> 768 \<and> isValidUrl b (url st) \<longrightarrow> showPreview b st = st) \<and>
   (browserInnerWidth b \<le> 768 \<and> \<not> isValidUrl b (url st) \<longrightarrow>
      showPreviewer (showPreview b st) \<and> hasError (showPreview b st) \<and>
      errorMessage (showPreview b st) = InvalidUrlMessage)"
  by (simp add: showPreview_def isMobileDevice_def)

theorem C10_mobile_gate_after_url_check_witness:
  "browserInnerWidth phoneBrowser \<le> 768 \<and>
   isValidUrl phoneBrowser (url (LinkPreviewer ''https://ok.example'' {} {})) \<and>
   \<not> showPreviewer (showPreview phoneBrowser (LinkPreviewer ''https://ok.example'' {} {})) \<and>
   pendingTimers (showPreview phoneBrowser (LinkPreviewer ''https://ok.example'' {} {})) = [] \<and>
   \<not> isValidUrl phoneBrowser (url (LinkPreviewer ''not a url'' {} {})) \<and>
   showPreviewer (showPreview phoneBrowser (LinkPreviewer ''not a url'' {} {})) \<and>
   hasError (showPreview phoneBrowser (LinkPreviewer ''not a url'' {} {}))"
  using
    C10_mobile_gate_after_url_check [of phoneBrowser "LinkPreviewer ''https://ok.example'' {} {}"]
    C10_mobile_gate_after_url_check [of phoneBrowser "LinkPreviewer ''not a url'' {} {}"]
  by (simp add: sample_defs)

subsection \<open>Animation manager\<close>

lemma dispatchEnd_fst:
  "fst (dispatchEnd ws s) = map (\<lambda>w. if listening w then w\<lparr>listening := False, resolved := True\<rparr> else w) ws"
  by (induction ws arbitrary: s) (simp_all add: Let_def case_prod_beta)

lemma dispatchEnd_snd:
  "snd (dispatchEnd ws s) =
     (case filter (\<lambda>w. listening w \<and> \<not> resolved w) ws of [] \<Rightarrow> s | f # fs \<Rightarrow> continuation (last (f # fs)))"
  by (induction ws arbitrary: s) (simp_all add: Let_def case_prod_beta split: list.splits)

lemma animationEnds_waits:
  "waits (animationEnds m) = map (\<lambda>w. if listening w then w\<lparr>listening := False, resolved := True\<rparr> else w) (waits m)"
  by (simp add: animationEnds_def case_prod_beta dispatchEnd_fst)

lemma animationEnds_state:
  "animationState (animationEnds m) =
     (case filter (\<lambda>w. listening w \<and> \<not> resolved w) (waits m) of [] \<Rightarrow> animationState m | f # fs \<Rightarrow> continuation (last (f # fs)))"
  by (simp add: animationEnds_def case_prod_beta dispatchEnd_snd)

lemma animationEnds_other [simp]:
  "options (animationEnds m) = options m" "classList (animationEnds m) = classList m"
  by (simp_all add: animationEnds_def case_prod_beta)

lemma fallbackTimerFires_other [simp]:
  "options (fallbackTimerFires i m) = options m" "classList (fallbackTimerFires i m) = classList m"
  "length (waits (fallbackTimerFires i m)) = length (waits m)"
  by (simp_all add: fallbackTimerFires_def Let_def)

lemma addClasses_other:
  "addClasses c m = Inr m' \<Longrightarrow> options m' = options m \<and> waits m' = waits m \<and> animationState m' = animationState m"
  by (auto simp add: addClasses_def split: option.splits if_splits sum.splits)

lemma removeClasses_other:
  "removeClasses c m = Inr m' \<Longrightarrow> options m' = options m \<and> waits m' = waits m \<and> animationState m' = animationState m"
  by (auto simp add: removeClasses_def split: option.splits if_splits sum.splits)

lemma show_popup_cases:
  "snd (show_popup f m) = m \<and> fst (show_popup f m) = Returned \<and> (animationState m = Entering \<or> animationState m = Entered) \<or>
   (animationState m \<noteq> Entering \<and> animationState m \<noteq> Entered \<and>
    options (snd (show_popup f m)) = options m \<and> animationState (snd (show_popup f m)) = Entering \<and>
    (waits (snd (show_popup f m)) = waits m \<and> (\<exists>e. fst (show_popup f m) = Rejected e) \<or> 
     waits (snd (show_popup f m)) = waits m @ [freshWait (options m) Entered] \<and> fst (show_popup f m) = Awaiting (length (waits m))))"
  by (auto simp add: show_popup_def applyEnterClasses_def applyEnterActiveClasses_def waitForAnimation_def freshWait_def Let_def
      split: sum.splits dest!: addClasses_other)

lemma hide_popup_cases:
  "snd (hide_popup f m) = m \<and> fst (hide_popup f m) = Returned \<and> (animationState m = Exiting \<or> animationState m = Exited) \<or>
   (animationState m \<noteq> Exiting \<and> animationState m \<noteq> Exited \<and>
    options (snd (hide_popup f m)) = options m \<and> animationState (snd (hide_popup f m)) = Exiting \<and>
    (waits (snd (hide_popup f m)) = waits m \<and> (\<exists>e. fst (hide_popup f m) = Rejected e) \<or> 
     waits (snd (hide_popup f m)) = waits m @ [freshWait (options m) Exited] \<and> fst (hide_popup f m) = Awaiting (length (waits m))))"
  by (auto simp add: hide_popup_def applyExitClasses_def applyExitActiveClasses_def waitForAnimation_def freshWait_def Let_def
      split: sum.splits dest!: addClasses_other removeClasses_other)


lemma step_options: "options (animationStep f m ev) = options m"
  using show_popup_cases[of f m] hide_popup_cases[of f m]
  by (cases ev) auto

lemma step_waitsArmed: "waitsArmed m \<Longrightarrow> waitsArmed (animationStep f m ev)"
proof (cases ev)
  case Show
  assume "waitsArmed m"
  with Show show_popup_cases[of f m] show ?thesis
    by (auto simp add: waitsArmed_def freshWait_def)
next
  case Hide
  assume "waitsArmed m"
  with Hide hide_popup_cases[of f m] show ?thesis
    by (auto simp add: waitsArmed_def freshWait_def)
next
  case AnimationEnd
  assume "waitsArmed m"
  with AnimationEnd show ?thesis
    by (auto simp add: waitsArmed_def animationEnds_waits)
next
  case (FallbackTimerFires i)
  assume "waitsArmed m"
  with FallbackTimerFires show ?thesis
    by (auto simp add: waitsArmed_def fallbackTimerFires_def Let_def dest!: set_update_subset_insert[THEN subsetD])
qed

lemma run_snoc: "animationRun f m (evs @ [ev]) = animationStep f (animationRun f m evs) ev"
  by (simp add: animationRun_def)

lemma run_options: "options (animationRun f m evs) = options m"
  by (induction evs rule: rev_induct) (simp_all add: run_snoc step_options, simp add: animationRun_def)

lemma run_waitsArmed: "waitsArmed m \<Longrightarrow> waitsArmed (animationRun f m evs)"
  by (induction evs rule: rev_induct) (simp_all add: run_snoc step_waitsArmed, simp add: animationRun_def)

lemma fresh_waitsArmed: "waitsArmed (AnimationManager cl opts)"
  by (simp add: waitsArmed_def AnimationManager_def)

lemma step_resolved_stays:
  "i < length (waits m) \<Longrightarrow> resolved (waits m ! i) \<Longrightarrow>
   i < length (waits (animationStep f m ev)) \<and> resolved (waits (animationStep f m ev) ! i)"
proof (cases ev)
  case Show
  assume "i < length (waits m)" "resolved (waits m ! i)"
  with Show show_popup_cases[of f m] show ?thesis by (auto simp add: nth_append)
next
  case Hide
  assume "i < length (waits m)" "resolved (waits m ! i)"
  with Hide hide_popup_cases[of f m] show ?thesis by (auto simp add: nth_append)
next
  case AnimationEnd
  assume "i < length (waits m)" "resolved (waits m ! i)"
  with AnimationEnd show ?thesis by (simp add: animationEnds_waits)
next
  case (FallbackTimerFires j)
  assume "i < length (waits m)" "resolved (waits m ! i)"
  with FallbackTimerFires show ?thesis
    by (auto simp add: fallbackTimerFires_def Let_def nth_list_update)
qed

lemma open_wait_timer:
  "i < length (waits m) \<Longrightarrow> timerPending (waits m ! i) \<Longrightarrow> \<not> resolved (waits m ! i) \<Longrightarrow>
   resolved (waits (fallbackTimerFires i m) ! i) \<and>
   animationState (fallbackTimerFires i m) = continuation (waits m ! i)"
  by (simp add: fallbackTimerFires_def Let_def)

lemma open_wait_event:
  "i < length (waits m) \<Longrightarrow> listening (waits m ! i) \<Longrightarrow>
   resolved (waits (animationEnds m) ! i) \<and> \<not> listening (waits (animationEnds m) ! i)"
  by (simp add: animationEnds_waits)

lemma filter_single:
  "i < length ws \<Longrightarrow> P (ws ! i) \<Longrightarrow> (\<forall>j < length ws. j \<noteq> i \<longrightarrow> \<not> P (ws ! j)) \<Longrightarrow> filter P ws = [ws ! i]"
proof (induction ws arbitrary: i)
  case Nil
  then show ?case by simp
next
  case (Cons a ws)
  show ?case
  proof (cases i)
    case 0
    have "\<forall>u \<in> set ws. \<not> P u"
    proof
      fix u assume "u \<in> set ws"
      then obtain k where "k < length ws" "ws ! k = u" by (auto simp add: in_set_conv_nth)
      with Cons.prems(3)[rule_format, of "Suc k"] 0 show "\<not> P u" by auto
    qed
    with 0 Cons.prems show ?thesis by (simp add: filter_empty_conv)
  next
    case (Suc k)
    from Cons.prems(3)[rule_format, of 0] Suc have na: "\<not> P a" by simp
    have "filter P ws = [ws ! k]"
    proof (rule Cons.IH)
      show "k < length ws" using Cons.prems(1) Suc by simp
      show "P (ws ! k)" using Cons.prems(2) Suc by simp
      show "\<forall>j<length ws. j \<noteq> k \<longrightarrow> \<not> P (ws ! j)"
        using Cons.prems(3)[rule_format, of "Suc j" for j] Suc by auto
    qed
    with na Suc show ?thesis by simp
  qed
qed

lemma only_open_wait_event:
  assumes "i < length (waits m)" "listening (waits m ! i)" "\<not> resolved (waits m ! i)"
    and "\<forall>j < length (waits m). j \<noteq> i \<longrightarrow> resolved (waits m ! j)"
  shows "animationState (animationEnds m) = continuation (waits m ! i)"
proof -
  have "filter (\<lambda>w. listening w \<and> \<not> resolved w) (waits m) = [waits m ! i]"
    using assms by (intro filter_single) auto
  then show ?thesis by (simp add: animationEnds_state)
qed

lemma all_resolved_event:
  assumes "\<forall>j < length (waits m). resolved (waits m ! j)"
  shows "animationState (animationEnds m) = animationState m"
proof -
  have "filter (\<lambda>w. listening w \<and> \<not> resolved w) (waits m) = []"
    using assms by (auto simp add: filter_empty_conv in_set_conv_nth)
  then show ?thesis by (simp add: animationEnds_state)
qed

lemma resolved_timer_ignored:
  "i < length (waits m) \<Longrightarrow> resolved (waits m ! i) \<Longrightarrow>
   animationState (fallbackTimerFires i m) = animationState m"
  by (simp add: fallbackTimerFires_def Let_def)


lemma show_popup_noop:
  "animationState m = Entering \<or> animationState m = Entered \<Longrightarrow> show_popup f m = (Returned, m)"
  by (auto simp add: show_popup_def)






text \<open>Evaluation of the sample runs: the number printer and the class strings of the fade
  preset once and for all, then each show and hide of the sample runs.\<close>

lemma sample_digits:
  "sampleNumberToString 200 = ''200''" "sampleNumberToString 150 = ''150''"
  by (simp_all add: sampleNumberToString_def decimal.simps)

lemma sample_tokens:
  "jsSplit CHR '' '' ''opacity-0'' = [''opacity-0'']"
  "jsSplit CHR '' '' ''opacity-100'' = [''opacity-100'']"
  "jsSplit CHR '' '' ''opacity-100 transition-opacity duration-200''
     = [''opacity-100'', ''transition-opacity'', ''duration-200'']"
  "jsSplit CHR '' '' ''opacity-0 transition-opacity duration-150''
     = [''opacity-0'', ''transition-opacity'', ''duration-150'']"
  by simp_all

lemma sample_tokens_valid:
  "validateTokens [''opacity-0''] = None"
  "validateTokens [''opacity-100''] = None"
  "validateTokens [''opacity-100'', ''transition-opacity'', ''duration-200''] = None"
  "validateTokens [''opacity-0'', ''transition-opacity'', ''duration-150''] = None"
  by (simp_all add: isAsciiWhitespace_def)

lemmas animation_eval =
  animationRun_def AnimationManager_def fadeProps_def show_popup_def hide_popup_def
  applyEnterClasses_def applyEnterActiveClasses_def applyExitClasses_def
  applyExitActiveClasses_def getAnimationPreset_def getPresetAnimation_def fadePreset_def
  orDefault_def addClasses_def removeClasses_def classList_add_def classList_remove_def
  waitForAnimation_def sample_digits sample_tokens sample_tokens_valid
  animationEnds_def fallbackTimerFires_def Let_def

lemma sample_show_fresh:
  "show_popup sampleNumberToString
     \<lparr>classList = [''popup''],
       options = fadeProps (Some 200), animationState = Exited,
       waits = []\<rparr>
   = (Awaiting 0,
      \<lparr>classList = [''popup'', ''opacity-0'', ''opacity-100'', ''transition-opacity'', ''duration-200''],
       options = fadeProps (Some 200), animationState = Entering,
       waits = [\<lparr>continuation = Entered, listening = True, timerPending = True, fallbackDelay = 200, resolved = False\<rparr>]\<rparr>)"
  by (simp add: animation_eval del: jsSplit.simps validateTokens.simps)

lemma sample_show_fresh_default:
  "show_popup sampleNumberToString
     \<lparr>classList = [''popup''],
       options = fadeProps None, animationState = Exited,
       waits = []\<rparr>
   = (Awaiting 0,
      \<lparr>classList = [''popup'', ''opacity-0'', ''opacity-100'', ''transition-opacity'', ''duration-200''],
       options = fadeProps None, animationState = Entering,
       waits = [\<lparr>continuation = Entered, listening = True, timerPending = True, fallbackDelay = 300, resolved = False\<rparr>]\<rparr>)"
  by (simp add: animation_eval del: jsSplit.simps validateTokens.simps)

lemma sample_hide_entering:
  "hide_popup sampleNumberToString
     \<lparr>classList = [''popup'', ''opacity-0'', ''opacity-100'', ''transition-opacity'', ''duration-200''],
       options = fadeProps (Some 200), animationState = Entering,
       waits = [\<lparr>continuation = Entered, listening = True, timerPending = True, fallbackDelay = 200, resolved = False\<rparr>]\<rparr>
   = (Awaiting 1,
      \<lparr>classList = [''popup'', ''opacity-0'', ''opacity-100'', ''transition-opacity'', ''duration-150''],
       options = fadeProps (Some 200), animationState = Exiting,
       waits = [\<lparr>continuation = Entered, listening = True, timerPending = True, fallbackDelay = 200, resolved = False\<rparr>,
                \<lparr>continuation = Exited, listening = True, timerPending = True, fallbackDelay = 200, resolved = False\<rparr>]\<rparr>)"
  by (simp add: animation_eval del: jsSplit.simps validateTokens.simps)

lemma sample_hide_entered:
  "hide_popup sampleNumberToString
     \<lparr>classList = [''popup'', ''opacity-0'', ''opacity-100'', ''transition-opacity'', ''duration-200''],
       options = fadeProps (Some 200), animationState = Entered,
       waits = [\<lparr>continuation = Entered, listening = False, timerPending = True, fallbackDelay = 200, resolved = True\<rparr>]\<rparr>
   = (Awaiting 1,
      \<lparr>classList = [''popup'', ''opacity-0'', ''opacity-100'', ''transition-opacity'', ''duration-150''],
       options = fadeProps (Some 200), animationState = Exiting,
       waits = [\<lparr>continuation = Entered, listening = False, timerPending = True, fallbackDelay = 200, resolved = True\<rparr>,
                \<lparr>continuation = Exited, listening = True, timerPending = True, fallbackDelay = 200, resolved = False\<rparr>]\<rparr>)"
  by (simp add: animation_eval del: jsSplit.simps validateTokens.simps)

lemma sample_show_exiting:
  "show_popup sampleNumberToString
     \<lparr>classList = [''popup'', ''opacity-0'', ''opacity-100'', ''transition-opacity'', ''duration-150''],
       options = fadeProps (Some 200), animationState = Exiting,
       waits = [\<lparr>continuation = Entered, listening = False, timerPending = True, fallbackDelay = 200, resolved = True\<rparr>,
                \<lparr>continuation = Exited, listening = True, timerPending = True, fallbackDelay = 200, resolved = False\<rparr>]\<rparr>
   = (Awaiting 2,
      \<lparr>classList = [''popup'', ''opacity-0'', ''opacity-100'', ''transition-opacity'', ''duration-150'', ''duration-200''],
       options = fadeProps (Some 200), animationState = Entering,
       waits = [\<lparr>continuation = Entered, listening = False, timerPending = True, fallbackDelay = 200, resolved = True\<rparr>,
                \<lparr>continuation = Exited, listening = True, timerPending = True, fallbackDelay = 200, resolved = False\<rparr>,
                \<lparr>continuation = Entered, listening = True, timerPending = True, fallbackDelay = 200, resolved = False\<rparr>]\<rparr>)"
  by (simp add: animation_eval del: jsSplit.simps validateTokens.simps)

lemma sample_show_exited_again:
  "show_popup sampleNumberToString
     \<lparr>classList = [''popup'', ''opacity-0'', ''opacity-100'', ''transition-opacity'', ''duration-150'', ''duration-200''],
       options = fadeProps (Some 200), animationState = Exited,
       waits = [\<lparr>continuation = Entered, listening = False, timerPending = True, fallbackDelay = 200, resolved = True\<rparr>,
                \<lparr>continuation = Exited, listening = True, timerPending = False, fallbackDelay = 200, resolved = True\<rparr>,
                \<lparr>continuation = Entered, listening = True, timerPending = True, fallbackDelay = 200, resolved = False\<rparr>]\<rparr>
   = (Awaiting 3,
      \<lparr>classList = [''popup'', ''opacity-0'', ''opacity-100'', ''transition-opacity'', ''duration-150'', ''duration-200''],
       options = fadeProps (Some 200), animationState = Entering,
       waits = [\<lparr>continuation = Entered, listening = False, timerPending = True, fallbackDelay = 200, resolved = True\<rparr>,
                \<lparr>continuation = Exited, listening = True, timerPending = False, fallbackDelay = 200, resolved = True\<rparr>,
                \<lparr>continuation = Entered, listening = True, timerPending = True, fallbackDelay = 200, resolved = False\<rparr>,
                \<lparr>continuation = Entered, listening = True, timerPending = True, fallbackDelay = 200, resolved = False\<rparr>]\<rparr>)"
  by (simp add: animation_eval del: jsSplit.simps validateTokens.simps)

lemma hide_popup_noop:
  "animationState m = Exiting \<or> animationState m = Exited \<Longrightarrow> hide_popup f m = (Returned, m)"
  by (auto simp add: hide_popup_def)

lemma duration_fadeProps: "duration (fadeProps d) = d"
  by (simp add: fadeProps_def)

lemmas sample_run_eval =
  animationRun_def AnimationManager_def animationEnds_def fallbackTimerFires_def Let_def
  duration_fadeProps show_popup_noop hide_popup_noop
  sample_show_fresh sample_show_fresh_default sample_hide_entering sample_hide_entered
  sample_show_exiting sample_show_exited_again

lemma freshWait_explicit:
  "freshWait opts after =
     \<lparr>continuation = after, listening = True, timerPending = True,
      fallbackDelay = (case duration opts of None \<Rightarrow> 300 | Some d \<Rightarrow> if d = 0 then 300 else d),
      resolved = False\<rparr>"
  by (simp add: freshWait_def orDefault_def)


lemma hide_popup_exits:
  "animationState m = Entered \<or> animationState m = Entering \<Longrightarrow>
   animationState (snd (hide_popup f m)) = Exiting \<and>
   (fst (hide_popup f m) = Awaiting (length (waits m)) \<and>
      waits (snd (hide_popup f m)) = waits m @ [freshWait (options m) Exited] \<or>
    (\<exists>e. fst (hide_popup f m) = Rejected e) \<and> waits (snd (hide_popup f m)) = waits m)"
  using hide_popup_cases [of f m] by auto




lemma case_last_snoc:
  "(case ys @ [a] of [] \<Rightarrow> s | f # fs \<Rightarrow> c (last (f # fs))) = c a"
  by (cases ys) simp_all

lemma new_wait_event:
  "waits m' = ws @ [freshWait opts after] \<Longrightarrow> animationState (animationEnds m') = after"
  by (simp add: animationEnds_state freshWait_def case_last_snoc)

lemma new_wait_timer:
  "waits m' = ws @ [freshWait opts after] \<Longrightarrow>
   animationState (fallbackTimerFires (length ws) m') = after"
  by (simp add: fallbackTimerFires_def freshWait_def Let_def)

text \<open>
  C9 (as the code has it). In every state the manager reaches from its construction:
  show returns at once only when the state is entering or entered, and hide only when it
  is exiting or exited; whenever show or hide waits, it has just made a promise with
  the listener registered and the fallback timer pending, and either the timer's firing or
  a completion event then completes the transition (entered after show, exited after
  hide), so with no completion event at all the timer alone ends the wait. The fallback
  delay of every promise is the configured duration when that is not 0, and 300 when no
  duration is configured or the configured one is 0. While a promise is not resolved, both
  paths are armed; the timer's firing resolves it and runs the assignment that waits for
  it; a completion event resolves it too and removes the listener, and runs that
  assignment when no other promise is open. Once it is resolved, the other path is
  ignored: the timer's firing changes no state, the promise stays resolved under every
  event, and a completion event changes no state when every promise is resolved.
\<close>

theorem C9_wait_resolves_on_first_of_event_and_timer:
  "m = animationRun f (AnimationManager cl opts) evs \<Longrightarrow>
   (fst (show_popup f m) = Returned
      \<longleftrightarrow> animationState m = Entering \<or> animationState m = Entered) \<and>
   (fst (hide_popup f m) = Returned
      \<longleftrightarrow> animationState m = Exiting \<or> animationState m = Exited) \<and>
   (fst (show_popup f m) = Awaiting k
      \<longrightarrow> k = length (waits m) \<and>
          waits (snd (show_popup f m)) = waits m @
            [\<lparr>continuation = Entered, listening = True, timerPending = True,
              fallbackDelay =
                (case duration opts of None \<Rightarrow> 300 | Some d \<Rightarrow> if d = 0 then 300 else d),
              resolved = False\<rparr>] \<and>
          animationState (snd (show_popup f m)) = Entering \<and>
          animationState (animationStep f (snd (show_popup f m)) (FallbackTimerFires k))
            = Entered \<and>
          animationState (animationStep f (snd (show_popup f m)) AnimationEnd) = Entered) \<and>
   (fst (hide_popup f m) = Awaiting k
      \<longrightarrow> k = length (waits m) \<and>
          waits (snd (hide_popup f m)) = waits m @
            [\<lparr>continuation = Exited, listening = True, timerPending = True,
              fallbackDelay =
                (case duration opts of None \<Rightarrow> 300 | Some d \<Rightarrow> if d = 0 then 300 else d),
              resolved = False\<rparr>] \<and>
          animationState (snd (hide_popup f m)) = Exiting \<and>
          animationState (animationStep f (snd (hide_popup f m)) (FallbackTimerFires k))
            = Exited \<and>
          animationState (animationStep f (snd (hide_popup f m)) AnimationEnd) = Exited) \<and>
   (i < length (waits m)
      \<longrightarrow> fallbackDelay (waits m ! i)
            = (case duration opts of None \<Rightarrow> 300 | Some d \<Rightarrow> if d = 0 then 300 else d) \<and>
          (\<not> resolved (waits m ! i) \<longrightarrow>
             listening (waits m ! i) \<and> timerPending (waits m ! i) \<and>
             resolved (waits (animationStep f m (FallbackTimerFires i)) ! i) \<and>
             animationState (animationStep f m (FallbackTimerFires i))
               = continuation (waits m ! i) \<and>
             resolved (waits (animationStep f m AnimationEnd) ! i) \<and>
             \<not> listening (waits (animationStep f m AnimationEnd) ! i) \<and>
             ((\<forall>j < length (waits m). j \<noteq> i \<longrightarrow> resolved (waits m ! j)) \<longrightarrow>
                animationState (animationStep f m AnimationEnd) = continuation (waits m ! i))) \<and>
          (resolved (waits m ! i) \<longrightarrow>
             animationState (animationStep f m (FallbackTimerFires i)) = animationState m \<and>
             (\<forall>ev. resolved (waits (animationStep f m ev) ! i)) \<and>
             ((\<forall>j < length (waits m). resolved (waits m ! j)) \<longrightarrow>
                animationState (animationStep f m AnimationEnd) = animationState m)))"
proof -
  assume m: "m = animationRun f (AnimationManager cl opts) evs"
  have armed: "waitsArmed m"
    unfolding m by (rule run_waitsArmed [OF fresh_waitsArmed])
  have opts: "options m = opts"
    unfolding m by (simp add: run_options AnimationManager_def)
  have returns:
    "fst (show_popup f m) = Returned
       \<longleftrightarrow> animationState m = Entering \<or> animationState m = Entered"
    "fst (hide_popup f m) = Returned
       \<longleftrightarrow> animationState m = Exiting \<or> animationState m = Exited"
    using show_popup_cases [of f m] hide_popup_cases [of f m] by auto
  have afterShow: "k = length (waits m) \<and>
      waits (snd (show_popup f m)) = waits m @ [freshWait opts Entered] \<and>
      animationState (snd (show_popup f m)) = Entering \<and>
      animationState (animationStep f (snd (show_popup f m)) (FallbackTimerFires k)) = Entered \<and>
      animationState (animationStep f (snd (show_popup f m)) AnimationEnd) = Entered"
    if a: "fst (show_popup f m) = Awaiting k"
  proof -
    from a show_popup_cases [of f m] opts
    have k: "k = length (waits m)"
      and ws: "waits (snd (show_popup f m)) = waits m @ [freshWait opts Entered]"
      and st: "animationState (snd (show_popup f m)) = Entering"
      by auto
    from k ws st new_wait_event [OF ws] new_wait_timer [OF ws] show ?thesis by simp
  qed
  have afterHide: "k = length (waits m) \<and>
      waits (snd (hide_popup f m)) = waits m @ [freshWait opts Exited] \<and>
      animationState (snd (hide_popup f m)) = Exiting \<and>
      animationState (animationStep f (snd (hide_popup f m)) (FallbackTimerFires k)) = Exited \<and>
      animationState (animationStep f (snd (hide_popup f m)) AnimationEnd) = Exited"
    if a: "fst (hide_popup f m) = Awaiting k"
  proof -
    from a hide_popup_cases [of f m] opts
    have k: "k = length (waits m)"
      and ws: "waits (snd (hide_popup f m)) = waits m @ [freshWait opts Exited]"
      and st: "animationState (snd (hide_popup f m)) = Exiting"
      by auto
    from k ws st new_wait_event [OF ws] new_wait_timer [OF ws] show ?thesis by simp
  qed
  have existing:
    "fallbackDelay (waits m ! i) = orDefault (duration opts) 300 \<and>
     (\<not> resolved (waits m ! i) \<longrightarrow>
        listening (waits m ! i) \<and> timerPending (waits m ! i) \<and>
        resolved (waits (animationStep f m (FallbackTimerFires i)) ! i) \<and>
        animationState (animationStep f m (FallbackTimerFires i)) = continuation (waits m ! i) \<and>
        resolved (waits (animationStep f m AnimationEnd) ! i) \<and>
        \<not> listening (waits (animationStep f m AnimationEnd) ! i) \<and>
        ((\<forall>j < length (waits m). j \<noteq> i \<longrightarrow> resolved (waits m ! j)) \<longrightarrow>
           animationState (animationStep f m AnimationEnd) = continuation (waits m ! i))) \<and>
     (resolved (waits m ! i) \<longrightarrow>
        animationState (animationStep f m (FallbackTimerFires i)) = animationState m \<and>
        (\<forall>ev. resolved (waits (animationStep f m ev) ! i)) \<and>
        ((\<forall>j < length (waits m). resolved (waits m ! j)) \<longrightarrow>
           animationState (animationStep f m AnimationEnd) = animationState m))"
    if im: "i < length (waits m)"
  proof -
    from im have w: "waits m ! i \<in> set (waits m)" by simp
    from armed w opts have d: "fallbackDelay (waits m ! i) = orDefault (duration opts) 300"
      and o: "\<not> resolved (waits m ! i) \<Longrightarrow> listening (waits m ! i) \<and> timerPending (waits m ! i)"
      by (auto simp add: waitsArmed_def)
    show ?thesis
      using d o im open_wait_timer [of i m] open_wait_event [of i m]
        only_open_wait_event [of i m] resolved_timer_ignored [of i m]
        step_resolved_stays [of i m f] all_resolved_event [of m]
      by auto
  qed
  have delay: "orDefault (duration opts) 300
      = (case duration opts of None \<Rightarrow> 300 | Some d \<Rightarrow> if d = 0 then 300 else d)"
    by (simp add: orDefault_def)
  from returns afterShow afterHide existing show ?thesis
    unfolding freshWait_explicit delay by blast
qed

theorem C9_wait_resolves_on_first_of_event_and_timer_witness:
  "fst (show_popup sampleNumberToString
      (animationRun sampleNumberToString (AnimationManager [''popup''] (fadeProps None)) []))
     = Awaiting 0 \<and>
   fallbackDelay (waits (animationRun sampleNumberToString
      (AnimationManager [''popup''] (fadeProps None)) [Show]) ! 0) = 300 \<and>
   animationState (animationRun sampleNumberToString
      (AnimationManager [''popup''] (fadeProps None)) [Show, FallbackTimerFires 0]) = Entered \<and>
   fst (hide_popup sampleNumberToString
      (animationRun sampleNumberToString (AnimationManager [''popup''] (fadeProps (Some 200)))
         [Show, AnimationEnd])) = Awaiting 1 \<and>
   animationState (animationRun sampleNumberToString
      (AnimationManager [''popup''] (fadeProps (Some 200))) [Show, AnimationEnd, Hide])
     = Exiting \<and>
   animationState (animationRun sampleNumberToString
      (AnimationManager [''popup''] (fadeProps (Some 200)))
      [Show, AnimationEnd, Hide, FallbackTimerFires 1]) = Exited \<and>
   fallbackDelay (waits (animationRun sampleNumberToString
      (AnimationManager [''popup''] (fadeProps (Some 200))) [Show]) ! 0) = 200 \<and>
   \<not> resolved (waits (animationRun sampleNumberToString
      (AnimationManager [''popup''] (fadeProps (Some 200))) [Show]) ! 0) \<and>
   animationState (animationRun sampleNumberToString
      (AnimationManager [''popup''] (fadeProps (Some 200))) [Show]) = Entering \<and>
   animationState (animationRun sampleNumberToString
      (AnimationManager [''popup''] (fadeProps (Some 200))) [Show, FallbackTimerFires 0])
     = Entered \<and>
   animationState (animationRun sampleNumberToString
      (AnimationManager [''popup''] (fadeProps (Some 200))) [Show, AnimationEnd]) = Entered \<and>
   resolved (waits (animationRun sampleNumberToString
      (AnimationManager [''popup''] (fadeProps (Some 200))) [Show, AnimationEnd]) ! 0) \<and>
   animationState (animationRun sampleNumberToString
      (AnimationManager [''popup''] (fadeProps (Some 200)))
      [Show, AnimationEnd, FallbackTimerFires 0]) = Entered"
  using
    C9_wait_resolves_on_first_of_event_and_timer [of
      "animationRun sampleNumberToString (AnimationManager [''popup''] (fadeProps None)) []"
      sampleNumberToString "[''popup'']" "fadeProps None" "[]" 0 0]
    C9_wait_resolves_on_first_of_event_and_timer [of
      "animationRun sampleNumberToString (AnimationManager [''popup''] (fadeProps (Some 200)))
         [Show, AnimationEnd]"
      sampleNumberToString "[''popup'']" "fadeProps (Some 200)" "[Show, AnimationEnd]" 1 0]
    C9_wait_resolves_on_first_of_event_and_timer [of
      "animationRun sampleNumberToString (AnimationManager [''popup''] (fadeProps (Some 200)))
         [Show]"
      sampleNumberToString "[''popup'']" "fadeProps (Some 200)" "[Show]" 1 0]
  by (simp add: sample_run_eval)

text \<open>
  C9 as stated fails for a configured duration of 0: the fallback timer is not the
  configured duration but 300, since 0 counts as absent in \<open>duration || 300\<close>.
\<close>

theorem C9_zero_duration_counterexample:
  "duration (fadeProps (Some 0)) = Some 0 \<and>
   fallbackDelay (waits (animationRun sampleNumberToString
      (AnimationManager [''popup''] (fadeProps (Some 0))) [Show]) ! 0) = 300 \<and>
   fallbackDelay (waits (animationRun sampleNumberToString
      (AnimationManager [''popup''] (fadeProps (Some 0))) [Show, AnimationEnd, Hide]) ! 1) = 300"
  by (simp add: animation_eval del: jsSplit.simps validateTokens.simps)

end
